theory Spec2Isabelle
  imports Complex_Main "HOL-Library.AList"
begin

section \<open>Values of the recorder\<close>

text \<open>
  The recorder (\<^verbatim>\<open>src/recorder.py\<close>, function \<^verbatim>\<open>recorder\<close>) works on Python floats
  held in dictionaries and data frames. A float is modelled as an exact real or the
  value NaN, which is what a missing data-frame cell reads as; rounding is not modelled.
  Comparisons with NaN are false, arithmetic with NaN gives NaN.
\<close>

datatype pyfloat = NaN | Fl real

fun fadd :: "pyfloat \<Rightarrow> pyfloat \<Rightarrow> pyfloat" where
  "fadd (Fl a) (Fl b) = Fl (a + b)"
| "fadd _ _ = NaN"

fun fsub :: "pyfloat \<Rightarrow> pyfloat \<Rightarrow> pyfloat" where
  "fsub (Fl a) (Fl b) = Fl (a - b)"
| "fsub _ _ = NaN"

fun fmul :: "pyfloat \<Rightarrow> pyfloat \<Rightarrow> pyfloat" where
  "fmul (Fl a) (Fl b) = Fl (a * b)"
| "fmul _ _ = NaN"

fun fneg :: "pyfloat \<Rightarrow> pyfloat" where
  "fneg (Fl a) = Fl (- a)"
| "fneg NaN = NaN"

fun feq :: "pyfloat \<Rightarrow> pyfloat \<Rightarrow> bool" where
  "feq (Fl a) (Fl b) = (a = b)"
| "feq _ _ = False"

fun fle :: "pyfloat \<Rightarrow> pyfloat \<Rightarrow> bool" where
  "fle (Fl a) (Fl b) = (a \<le> b)"
| "fle _ _ = False"

fun fgt :: "pyfloat \<Rightarrow> pyfloat \<Rightarrow> bool" where
  "fgt (Fl a) (Fl b) = (a > b)"
| "fgt _ _ = False"

text \<open>The exceptions the modelled statements can raise.\<close>

datatype pyerror =
  KeyError | IndexError | ValueError | UnboundLocalError | AttributeError | FileNotFoundError

text \<open>
  Python's builtin \<^verbatim>\<open>max\<close> over a series: the first element is the candidate, a later
  element replaces it when it compares greater; an empty series raises ValueError.
\<close>

fun max_loop :: "pyfloat \<Rightarrow> pyfloat list \<Rightarrow> pyfloat" where
  "max_loop m [] = m"
| "max_loop m (x # xs) = max_loop (if fgt x m then x else m) xs"

fun pymax :: "pyfloat list \<Rightarrow> pyerror + pyfloat" where
  "pymax [] = Inl ValueError"
| "pymax (x # xs) = Inr (max_loop x xs)"

definition startswith :: "string \<Rightarrow> string \<Rightarrow> bool" where
  "startswith s p = (take (length p) s = p)"

text \<open>
  An expiration (\<^verbatim>\<open>lastTradeDateOrContractMonth\<close>, the column \<^verbatim>\<open>DOE\<close>) is kept as
  the calendar date that \<^verbatim>\<open>strptime(.., "%Y%m%d")\<close> reads from it.
\<close>

datatype pydate = Date nat nat nat

fun date_le :: "pydate \<Rightarrow> pydate \<Rightarrow> bool" where
  "date_le (Date y m d) (Date y' m' d') =
     (y < y' \<or> (y = y' \<and> (m < m' \<or> (m = m' \<and> d \<le> d'))))"

section \<open>Data model\<close>

record comboleg =
  ratio :: int
  cl_action :: string

datatype contract =
    Stock string
  | Option string pydate real int
  | Bag string "comboleg list"
  | Other string

fun symbol :: "contract \<Rightarrow> string" where
  "symbol (Stock s) = s"
| "symbol (Option s _ _ _) = s"
| "symbol (Bag s _) = s"
| "symbol (Other s) = s"

text \<open>
  One fill: \<^verbatim>\<open>fill.contract\<close>, the execution (\<^verbatim>\<open>exe.side\<close>, \<^verbatim>\<open>exe.shares\<close>,
  \<^verbatim>\<open>exe.price\<close>, and \<^verbatim>\<open>exe.time\<close> already converted to the New York date and time
  strings \<^verbatim>\<open>exedate\<close>, \<^verbatim>\<open>exetime\<close>) and the commission report.
\<close>

record fill =
  f_contract :: contract
  exe_side :: string
  exe_shares :: real
  exe_price :: real
  exedate :: string
  exetime :: string
  commission :: real
  realizedPNL :: real

record trade =
  t_contract :: contract
  fills :: "fill list"

text \<open>
  A ledger row: the columns of the spreadsheet, each present or absent. The row of a
  dictionary has a field when the key is set; the row of a data frame reads an absent
  field as NaN (\<open>cell\<close>). \<open>Commision\<close> is the key the portfolio pass writes under
  that spelling.
\<close>

record row =
  date :: "string option"
  time :: "string option"
  action :: "string option"
  ticker :: "string option"
  price :: "pyfloat option"
  trade_price :: "pyfloat option"
  leg_price :: "pyfloat option"
  strike :: "pyfloat option"
  DOE :: "pydate option"
  option_price :: "pyfloat option"
  option_trade_price :: "pyfloat option"
  Commission :: "pyfloat option"
  Option_size :: "pyfloat option"
  Underlying_size :: "pyfloat option"
  position_bal :: "pyfloat option"
  acct_bal :: "pyfloat option"
  PL_underlying :: "pyfloat option"
  PL_underlying_leg :: "pyfloat option"
  PL_option :: "pyfloat option"
  delta :: "pyfloat option"
  Commision :: "pyfloat option"

definition empty_row :: row where
  "empty_row = \<lparr> date = None, time = None, action = None, ticker = None, price = None,
     trade_price = None, leg_price = None, strike = None, DOE = None, option_price = None,
     option_trade_price = None, Commission = None, Option_size = None,
     Underlying_size = None, position_bal = None, acct_bal = None, PL_underlying = None,
     PL_underlying_leg = None, PL_option = None, delta = None, Commision = None \<rparr>"

definition cell :: "pyfloat option \<Rightarrow> pyfloat" where
  "cell c = (case c of None \<Rightarrow> NaN | Some v \<Rightarrow> v)"

text \<open>
  The type of a cell of yesterday's ledger is the type of its column, which
  \<^verbatim>\<open>pd.read_excel\<close> sets from the whole column of the sheet: a column in which every
  cell holds a whole number is read as \<^verbatim>\<open>int64\<close>, and a numeric column with an empty
  cell or with a number that has a fraction is read as \<^verbatim>\<open>float64\<close>. A column
  is given by the selector of its field.
\<close>

definition float64_column :: "(row \<Rightarrow> pyfloat option) \<Rightarrow> row list \<Rightarrow> bool" where
  "float64_column col df =
     list_ex (\<lambda>r. case cell (col r) of NaN \<Rightarrow> True | Fl v \<Rightarrow> of_int \<lfloor>v\<rfloor> \<noteq> v) df"

text \<open>
  \<^verbatim>\<open>type(x) == np.float64 and not np.isnan(x)\<close> (lines 211 to 214), for the cell \<open>x\<close> of
  the row \<open>y\<close> in the column \<open>col\<close> of the frame \<open>df\<close>.
\<close>

definition is_float :: "(row \<Rightarrow> pyfloat option) \<Rightarrow> row list \<Rightarrow> row \<Rightarrow> bool" where
  "is_float col df y = (float64_column col df \<and> cell (col y) \<noteq> NaN)"

text \<open>A dictionary of rows keeps its keys in insertion order; a data frame built from it
  keeps the keys as its index.\<close>

type_synonym rowdict = "(string \<times> row) list"

text \<open>\<^verbatim>\<open>df.loc[df['ticker'] == smb]\<close>: the rows whose ticker column is \<open>smb\<close>.\<close>

definition rows_of :: "row list \<Rightarrow> string \<Rightarrow> row list" where
  "rows_of df smb = filter (\<lambda>r. ticker r = Some smb) df"

text \<open>
  The local variables of \<^verbatim>\<open>recorder\<close> that both the trade loop and the portfolio loop
  assign and read. \<open>None\<close> is a variable that has not been assigned yet.
\<close>

record locals =
  l_action :: "string option"
  l_trade_price :: "pyfloat option"
  l_leg_price :: "pyfloat option"
  l_option_trade_price :: "pyfloat option"

definition unbound :: locals where
  "unbound = \<lparr> l_action = None, l_trade_price = None, l_leg_price = None,
     l_option_trade_price = None \<rparr>"

fun foldE :: "('s \<Rightarrow> 'a \<Rightarrow> pyerror + 's) \<Rightarrow> 's \<Rightarrow> 'a list \<Rightarrow> pyerror + 's" where
  "foldE f s [] = Inr s"
| "foldE f s (x # xs) = (case f s x of Inl e \<Rightarrow> Inl e | Inr s' \<Rightarrow> foldE f s' xs)"

section \<open>The trade loop: option orders\<close>

text \<open>Lines 202 to 218: the action label and the option trade price of an option fill.\<close>

definition option_action :: "row list \<Rightarrow> string \<Rightarrow> fill \<Rightarrow> string \<times> pyfloat" where
  "option_action yespos smb fl =
     (if exe_side fl = ''SLD'' then (''SELL CC'', Fl (exe_price fl))
      else if exe_side fl = ''BOT'' then
        (case rows_of yespos smb of
           [y] \<Rightarrow>
             if is_float option_price yespos y \<and> is_float price yespos y
             then (''CLOSE CC'', cell (option_trade_price y))
             else (''BUY CALL'', Fl (exe_price fl))
         | _ \<Rightarrow> (''BUY CALL'', Fl (exe_price fl)))
      else (''UNKNOWN'', Fl (exe_price fl)))"

text \<open>Lines 196 to 232: one fill of an option order, posted to the row of its symbol.\<close>

definition option_fill ::
  "row list \<Rightarrow> real \<Rightarrow> string \<Rightarrow> pydate \<Rightarrow> real \<Rightarrow> rowdict \<times> locals \<Rightarrow> fill
     \<Rightarrow> pyerror + rowdict \<times> locals" where
  "option_fill yespos account_value smb doe strk st fl =
     (case map_of (fst st) smb of
        None \<Rightarrow> Inl KeyError
      | Some r \<Rightarrow>
          let option_shares = (if exe_side fl = ''SLD'' then exe_shares fl * (- 1) else exe_shares fl);
              (action0, otp) = option_action yespos smb fl
          in case (if Underlying_size r \<noteq> None
                   then (case action r of None \<Rightarrow> Inl KeyError
                         | Some a \<Rightarrow> Inr (a @ '' '' @ action0))
                   else Inr action0) of
               Inl e \<Rightarrow> Inl e
             | Inr act \<Rightarrow>
                 let comm = fadd (case Commission r of Some c \<Rightarrow> c | None \<Rightarrow> Fl 0)
                                 (Fl (commission fl))
                 in Inr (AList.update smb
                      (r\<lparr> DOE := Some doe, strike := Some (Fl strk),
                          option_price := Some (Fl (exe_price fl)),
                          option_trade_price := Some otp,
                          acct_bal := Some (Fl account_value),
                          Option_size := Some (Fl option_shares),
                          PL_option := Some (Fl (realizedPNL fl)),
                          date := Some (exedate fl), time := Some (exetime fl),
                          action := Some act, Commission := Some comm \<rparr>) (fst st),
                      (snd st)\<lparr> l_action := Some act, l_option_trade_price := Some otp \<rparr>))"

section \<open>The trade loop: stock orders\<close>

text \<open>Lines 273 to 297: leg price and trade price of a stock fill.\<close>

definition stock_basis ::
  "row list \<Rightarrow> string \<Rightarrow> string \<Rightarrow> real \<Rightarrow> pyfloat \<Rightarrow> pyerror + pyfloat \<times> pyfloat" where
  "stock_basis yespos smb sd px under_shares =
     (let ys = rows_of yespos smb;
          carried =
            (case pymax (map (\<lambda>y. cell (leg_price y)) ys) of
               Inl e \<Rightarrow> Inl e
             | Inr lp \<Rightarrow>
                 (case pymax (map (\<lambda>y. cell (trade_price y)) ys) of
                    Inl e \<Rightarrow> Inl e
                  | Inr tp \<Rightarrow> Inr (lp, tp)))
      in if sd = ''BOT'' then
           (case ys of
              [] \<Rightarrow> Inr (Fl px, Fl px)
            | y # _ \<Rightarrow>
                if feq under_shares (fneg (cell (Underlying_size y))) then carried
                else Inr (Fl px, Fl px))
         else if length ys \<ge> 1 then carried
         else Inr (Fl px, Fl px))"

text \<open>Lines 240 to 308: one fill of a stock order.\<close>

definition stock_fill ::
  "row list \<Rightarrow> real \<Rightarrow> string \<Rightarrow> rowdict \<times> locals \<Rightarrow> fill \<Rightarrow> pyerror + rowdict \<times> locals" where
  "stock_fill yespos account_value smb st fl =
     (case map_of (fst st) smb of
        None \<Rightarrow> Inl KeyError
      | Some r \<Rightarrow>
          let this_shares = (if exe_side fl = ''SLD'' then - exe_shares fl else exe_shares fl);
              under_shares = (case Underlying_size r of
                                Some u \<Rightarrow> fadd u (Fl this_shares)
                              | None \<Rightarrow> Fl this_shares);
              PNLunderlyingleg = (case PL_underlying_leg r of Some p \<Rightarrow> p | None \<Rightarrow> Fl 0);
              PNLunderlying = (case PL_underlying r of Some p \<Rightarrow> p | None \<Rightarrow> Fl 0)
          in case (if Option_size r \<noteq> None
                   then (case action r of None \<Rightarrow> Inl KeyError
                         | Some a \<Rightarrow> Inr (exe_side fl @ '' '' @ a))
                   else Inr (exe_side fl)) of
               Inl e \<Rightarrow> Inl e
             | Inr act \<Rightarrow>
                 let comm0 = (case Commission r of Some c \<Rightarrow> c | None \<Rightarrow> Fl 0)
                 in case stock_basis yespos smb (exe_side fl) (exe_price fl) under_shares of
                      Inl e \<Rightarrow> Inl e
                    | Inr (lp, tp) \<Rightarrow>
                        Inr (AList.update smb
                          (r\<lparr> price := Some (Fl (exe_price fl)), trade_price := Some tp,
                              PL_underlying := Some (fadd PNLunderlying (Fl (realizedPNL fl))),
                              Underlying_size := Some under_shares, action := Some act,
                              leg_price := Some lp,
                              PL_underlying_leg := Some (fadd PNLunderlyingleg
                                (fmul (fsub (Fl (exe_price fl)) lp) (Fl (exe_shares fl)))),
                              acct_bal := Some (Fl account_value),
                              position_bal := Some (fmul under_shares (Fl (exe_price fl))),
                              Commission := Some (fadd comm0 (Fl (commission fl))),
                              date := Some (exedate fl), time := Some (exetime fl) \<rparr>) (fst st),
                          (snd st)\<lparr> l_action := Some act, l_leg_price := Some lp,
                                    l_trade_price := Some tp \<rparr>))"

section \<open>The trade loop: combination orders\<close>

text \<open>
  Lines 314 to 321: the label of a Bag order from its first two combo legs. The tests
  short-circuit as in the source, so a leg that is never looked at need not exist.
\<close>

fun classify :: "comboleg list \<Rightarrow> pyerror + string" where
  "classify [] = Inl IndexError"
| "classify [l0] =
     (if ratio l0 = 1 then Inl IndexError
      else if cl_action l0 = ''BUY'' \<and> ratio l0 = 100 then Inr ''BUY WRITE''
      else Inl IndexError)"
| "classify (l0 # l1 # _) =
     Inr (if (ratio l0 = 1 \<and> ratio l1 = 1) \<and> cl_action l0 \<noteq> cl_action l1 then ''ROLLOVER''
          else if (cl_action l0 = ''BUY'' \<and> ratio l0 = 100) \<or>
                  (cl_action l1 = ''BUY'' \<and> ratio l1 = 100) then ''BUY WRITE''
          else ''Unknown'')"

text \<open>\<^verbatim>\<open>if not (key in trades.keys()): trades[key] = {'ticker': tk}\<close>\<close>

definition ensure_row :: "rowdict \<Rightarrow> string \<Rightarrow> string \<Rightarrow> rowdict" where
  "ensure_row trades key tk =
     (if map_of trades key = None then trades @ [(key, empty_row\<lparr> ticker := Some tk \<rparr>)]
      else trades)"

text \<open>The variables the loop over a Bag's fills carries: lines 314, 322 and 323.\<close>

record bagvars =
  b_action :: string
  b_commission :: real
  b_position_bal :: real

text \<open>Lines 329 to 361: an option leg of a Bag.\<close>

definition bag_option_fill ::
  "row list \<Rightarrow> real \<Rightarrow> string \<Rightarrow> pydate \<Rightarrow> real \<Rightarrow> int \<Rightarrow> bagvars \<times> rowdict \<times> locals \<Rightarrow> fill
     \<Rightarrow> pyerror + bagvars \<times> rowdict \<times> locals" where
  "bag_option_fill yespos account_value qsym doe strk mult st fl =
     (let bv = fst st; trades = fst (snd st); lv = snd (snd st);
          comm = (if b_action bv = ''BUY WRITE'' then b_commission bv + commission fl
                  else commission fl);
          sld = (exe_side fl = ''SLD'');
          roll = startswith (b_action bv) ''ROLLOVER'';
          option_shares = (if sld then exe_shares fl * (- 1) else exe_shares fl);
          act = (if roll then (if sld then ''ROLLOVER WRITE'' else ''ROLLOVER CLOSE'')
                 else b_action bv);
          mysymbol = (if sld \<and> roll then qsym @ ''*'' else qsym);
          trades1 = (if sld \<and> roll then ensure_row trades mysymbol qsym else trades);
          otp = (if \<not> sld \<and> roll then
                   (case rows_of yespos qsym of
                      [y] \<Rightarrow> cell (option_trade_price y)
                    | _ \<Rightarrow> Fl (exe_price fl))
                 else Fl (exe_price fl));
          pbal = b_position_bal bv + exe_price fl * option_shares * real_of_int mult
      in case map_of trades1 mysymbol of
           None \<Rightarrow> Inl KeyError
         | Some r \<Rightarrow>
             Inr (\<lparr> b_action = act, b_commission = comm, b_position_bal = pbal \<rparr>,
                  AList.update mysymbol
                    (r\<lparr> DOE := Some doe, strike := Some (Fl strk),
                        option_price := Some (Fl (exe_price fl)),
                        option_trade_price := Some otp,
                        date := Some (exedate fl), time := Some (exetime fl),
                        Option_size := Some (Fl option_shares),
                        PL_option := Some (Fl (realizedPNL fl)),
                        acct_bal := Some (Fl account_value),
                        Commission := Some (Fl comm),
                        position_bal := Some (Fl pbal), action := Some act \<rparr>) trades1,
                  lv\<lparr> l_action := Some act, l_option_trade_price := Some otp \<rparr>))"

text \<open>Lines 367 to 386: the stock leg of a Bag.\<close>

definition bag_stock_fill ::
  "row list \<Rightarrow> real \<Rightarrow> string \<Rightarrow> string \<Rightarrow> bagvars \<times> rowdict \<times> locals \<Rightarrow> fill
     \<Rightarrow> pyerror + bagvars \<times> rowdict \<times> locals" where
  "bag_stock_fill yespos account_value qsym csym st fl =
     (let bv = fst st; trades = fst (snd st); lv = snd (snd st);
          comm = b_commission bv + commission fl;
          pbal = b_position_bal bv + exe_shares fl * exe_price fl;
          ys = rows_of yespos csym
      in case (if exe_side fl = ''BOT'' then Inr (Fl (exe_price fl), Fl (exe_price fl))
               else (case pymax (map (\<lambda>y. cell (leg_price y)) ys) of
                       Inl e \<Rightarrow> Inl e
                     | Inr lp \<Rightarrow>
                         (case pymax (map (\<lambda>y. cell (trade_price y)) ys) of
                            Inl e \<Rightarrow> Inl e
                          | Inr tp \<Rightarrow> Inr (lp, tp)))) of
           Inl e \<Rightarrow> Inl e
         | Inr (lp, tp) \<Rightarrow>
             (case map_of trades qsym of
                None \<Rightarrow> Inl KeyError
              | Some r \<Rightarrow>
                  Inr (bv\<lparr> b_commission := comm, b_position_bal := pbal \<rparr>,
                       AList.update qsym
                         (r\<lparr> price := Some (Fl (exe_price fl)), trade_price := Some tp,
                             date := Some (exedate fl), time := Some (exetime fl),
                             leg_price := Some lp,
                             PL_underlying := Some (Fl (realizedPNL fl)),
                             Underlying_size := Some (Fl (exe_shares fl)),
                             PL_underlying_leg :=
                               Some (fmul (fsub (Fl (exe_price fl)) lp) (Fl (exe_shares fl))),
                             action := Some (b_action bv),
                             position_bal := Some (Fl pbal),
                             acct_bal := Some (Fl account_value),
                             Commission := Some (Fl comm) \<rparr>) trades,
                       lv\<lparr> l_leg_price := Some lp, l_trade_price := Some tp \<rparr>)))"

definition bag_fill ::
  "row list \<Rightarrow> real \<Rightarrow> string \<Rightarrow> bagvars \<times> rowdict \<times> locals \<Rightarrow> fill
     \<Rightarrow> pyerror + bagvars \<times> rowdict \<times> locals" where
  "bag_fill yespos account_value qsym st fl =
     (case f_contract fl of
        Option csym doe strk mult \<Rightarrow> bag_option_fill yespos account_value qsym doe strk mult st fl
      | Stock csym \<Rightarrow> bag_stock_fill yespos account_value qsym csym st fl
      | _ \<Rightarrow> Inr st)"

section \<open>The trade loop\<close>

text \<open>Lines 190 to 396: one trade object, by the type of its contract.\<close>

definition process_trade ::
  "row list \<Rightarrow> real \<Rightarrow> rowdict \<times> locals \<Rightarrow> trade \<Rightarrow> pyerror + rowdict \<times> locals" where
  "process_trade yespos account_value st ttt =
     (let trades1 = ensure_row (fst st) (symbol (t_contract ttt)) (symbol (t_contract ttt))
      in case t_contract ttt of
           Option s doe strk mult \<Rightarrow>
             foldE (option_fill yespos account_value s doe strk) (trades1, snd st) (fills ttt)
         | Stock s \<Rightarrow>
             foldE (stock_fill yespos account_value s) (trades1, snd st) (fills ttt)
         | Bag s legs \<Rightarrow>
             (case classify legs of
                Inl e \<Rightarrow> Inl e
              | Inr a \<Rightarrow>
                  (case foldE (bag_fill yespos account_value s)
                          (\<lparr> b_action = a, b_commission = 0, b_position_bal = 0 \<rparr>,
                           trades1, (snd st)\<lparr> l_action := Some a \<rparr>) (fills ttt) of
                     Inl e \<Rightarrow> Inl e
                   | Inr st' \<Rightarrow> Inr (snd st')))
         | Other s \<Rightarrow> Inr (trades1, snd st))"

text \<open>Lines 147 and 188 to 396: the loop over the day's trades, from an empty dictionary.\<close>

definition process_trades :: "row list \<Rightarrow> real \<Rightarrow> trade list \<Rightarrow> pyerror + rowdict \<times> locals" where
  "process_trades yespos account_value trds =
     foldE (process_trade yespos account_value) ([], unbound) trds"

section \<open>The portfolio loop\<close>

record pitem =
  p_contract :: contract
  position :: real
  marketPrice :: real
  marketValue :: real
  unrealizedPNL :: real

text \<open>
  The variables of the loop over the portfolio (lines 417 to 537). The three flags are
  assigned in the first iteration before they are read, so their initial value is never seen.
\<close>

record pstate =
  first :: bool
  prevticker :: string
  rollover_flag :: bool
  sell_CC_flag :: bool
  close_CC_flag :: bool
  vars :: locals
  positions :: rowdict

text \<open>Lines 150 to 154: a stub row for every symbol of \<^verbatim>\<open>ib.positions()\<close>.\<close>

definition stub_row :: "string \<Rightarrow> string \<Rightarrow> string \<Rightarrow> row" where
  "stub_row log_date log_time smb =
     empty_row\<lparr> ticker := Some smb, date := Some log_date, time := Some log_time,
                action := Some ''OBSERVE'', position_bal := Some (Fl 0) \<rparr>"

fun stub_positions :: "string \<Rightarrow> string \<Rightarrow> rowdict \<Rightarrow> contract list \<Rightarrow> rowdict" where
  "stub_positions log_date log_time ps [] = ps"
| "stub_positions log_date log_time ps (c # cs) =
     stub_positions log_date log_time
       (if map_of ps (symbol c) = None
        then ps @ [(symbol c, stub_row log_date log_time (symbol c))] else ps) cs"

text \<open>\<^verbatim>\<open>sum(filt2 == 0)\<close>: the number of rows of yesterday's ledger with another ticker.\<close>

definition count_other :: "row list \<Rightarrow> string \<Rightarrow> nat" where
  "count_other yespos smb = length (filter (\<lambda>r. ticker r \<noteq> Some smb) yespos)"

text \<open>Lines 432 to 448: the symbol's one trade row is a SELL CC.\<close>

definition sell_cc_case :: "row list \<Rightarrow> string \<Rightarrow> row \<Rightarrow> pstate \<Rightarrow> pyerror + pstate" where
  "sell_cc_case yespos smb tr s =
     (let ys = rows_of yespos smb in
      if length ys = 1 then
        (case pymax (map (\<lambda>y. cell (trade_price y)) ys) of
           Inl e \<Rightarrow> Inl e
         | Inr tp \<Rightarrow>
             Inr (s\<lparr> sell_CC_flag := True,
                     vars := (vars s)\<lparr> l_trade_price := Some tp,
                       l_option_trade_price := Some (cell (option_trade_price tr)) \<rparr> \<rparr>))
      else if count_other yespos smb \<noteq> 0 then
        Inr (s\<lparr> vars := (vars s)\<lparr> l_trade_price := Some (Fl 0),
                  l_option_trade_price := Some (cell (option_trade_price tr)),
                  l_action := Some ''UNMATCHED SELL CC'' \<rparr> \<rparr>)
      else Inr (s\<lparr> vars := (vars s)\<lparr> l_action := Some ''ERROR'' \<rparr> \<rparr>))"

text \<open>Lines 449 to 465: the symbol's one trade row is a CLOSE CC.\<close>

definition close_cc_case :: "row list \<Rightarrow> string \<Rightarrow> row \<Rightarrow> pstate \<Rightarrow> pyerror + pstate" where
  "close_cc_case yespos smb tr s =
     (case rows_of yespos smb of
        [y] \<Rightarrow>
          Inr (s\<lparr> close_CC_flag := True,
                  vars := (vars s)\<lparr> l_trade_price := Some (cell (trade_price y)),
                    l_option_trade_price := Some (cell (option_trade_price tr)) \<rparr> \<rparr>)
      | _ \<Rightarrow>
          if count_other yespos smb \<noteq> 0 then
            Inr (s\<lparr> vars := (vars s)\<lparr> l_trade_price := Some (Fl 0), l_leg_price := Some (Fl 0),
                      l_option_trade_price := Some (cell (option_trade_price tr)),
                      l_action := Some ''UNMATCHED CLOSE CC'' \<rparr> \<rparr>)
          else Inr (s\<lparr> vars := (vars s)\<lparr> l_action := Some ''ERROR'' \<rparr> \<rparr>))"

text \<open>
  Lines 429 to 484: the symbol has one row in today's trades. \<open>trs\<close> is that selection
  of the trades frame, with its index.
\<close>

definition one_trade_case ::
  "rowdict \<Rightarrow> row list \<Rightarrow> string \<Rightarrow> rowdict \<Rightarrow> pstate \<Rightarrow> pyerror + pstate" where
  "one_trade_case trades_df yespos smb trs s =
     (case map_of trades_df smb of
        None \<Rightarrow> Inl KeyError
      | Some tr \<Rightarrow>
          if action tr = Some ''SELL CC'' then sell_cc_case yespos smb tr s
          else if action tr = Some ''CLOSE CC'' then close_cc_case yespos smb tr s
          else
            (case action tr of
               None \<Rightarrow> Inl AttributeError
             | Some a \<Rightarrow>
                 if a = ''BUY WRITE'' \<or> startswith a ''BOT'' then
                   (case map_of trs smb of
                      None \<Rightarrow> Inl KeyError
                    | Some t \<Rightarrow>
                        (case trs of
                           [] \<Rightarrow> Inl IndexError
                         | t0 # _ \<Rightarrow>
                             Inr (s\<lparr> vars := (vars s)\<lparr> l_trade_price := Some (cell (trade_price t)),
                                   l_leg_price := Some (cell (leg_price t)),
                                   l_option_trade_price :=
                                     Some (cell (option_trade_price (snd t0))) \<rparr> \<rparr>)))
                 else if a = ''SLD'' then
                   (case rows_of yespos smb of
                      [y] \<Rightarrow>
                        (case map_of trs smb of
                           None \<Rightarrow> Inl KeyError
                         | Some t \<Rightarrow>
                             Inr (s\<lparr> vars := (vars s)\<lparr> l_trade_price := Some (cell (trade_price y)),
                                   l_leg_price := Some (cell (leg_price t)),
                                   l_option_trade_price :=
                                     Some (cell (option_trade_price y)) \<rparr> \<rparr>))
                    | _ \<Rightarrow> Inr s)
                 else Inr s))"

text \<open>Lines 485 to 502: the symbol has no row in today's trades.\<close>

definition no_trade_case :: "row list \<Rightarrow> string \<Rightarrow> pstate \<Rightarrow> pyerror + pstate" where
  "no_trade_case yespos smb s =
     (case rows_of yespos smb of
        [y] \<Rightarrow>
          Inr (s\<lparr> vars := (vars s)\<lparr> l_trade_price := Some (cell (trade_price y)),
                l_leg_price := Some (cell (leg_price y)),
                l_option_trade_price := Some (cell (option_trade_price y)) \<rparr> \<rparr>)
      | [] \<Rightarrow>
          Inr (s\<lparr> vars := (vars s)\<lparr> l_trade_price := Some (Fl 0), l_leg_price := Some (Fl 0),
                l_option_trade_price := Some (Fl 0) \<rparr> \<rparr>)
      | _ \<Rightarrow>
          Inr (s\<lparr> vars := (vars s)\<lparr> l_trade_price := Some (Fl (- 9999)),
                l_leg_price := Some (Fl (- 9999)) \<rparr> \<rparr>))"

text \<open>Lines 503 to 509: two rows in today's trades, a rollover.\<close>

definition rollover_case :: "row list \<Rightarrow> string \<Rightarrow> rowdict \<Rightarrow> pstate \<Rightarrow> pyerror + pstate" where
  "rollover_case yespos smb trs s =
     (case pymax (map (\<lambda>y. cell (trade_price y)) (rows_of yespos smb)) of
        Inl e \<Rightarrow> Inl e
      | Inr tp \<Rightarrow>
          (case map_of trs (smb @ ''*'') of
             None \<Rightarrow> Inl KeyError
           | Some t \<Rightarrow>
               Inr (s\<lparr> rollover_flag := True,
                       vars := (vars s)\<lparr> l_trade_price := Some tp,
                         l_option_trade_price := Some (cell (option_trade_price t)) \<rparr> \<rparr>)))"

text \<open>Lines 423 to 515: what the loop does when it meets a symbol other than the previous one.\<close>

definition classify_ticker :: "rowdict \<Rightarrow> row list \<Rightarrow> string \<Rightarrow> pstate \<Rightarrow> pyerror + pstate" where
  "classify_ticker trades_df yespos smb s0 =
     (let s = s0\<lparr> rollover_flag := False, sell_CC_flag := False, close_CC_flag := False \<rparr>;
          trs = filter (\<lambda>kr. ticker (snd kr) = Some smb) trades_df
      in case (if length trs = 1 then one_trade_case trades_df yespos smb trs s
               else if length trs = 0 then no_trade_case yespos smb s
               else if length trs = 2 then rollover_case yespos smb trs s
               else Inr (s\<lparr> vars := (vars s)\<lparr> l_trade_price := Some (Fl (- 9999)),
                             l_leg_price := Some (Fl (- 9999)) \<rparr> \<rparr>)) of
           Inl e \<Rightarrow> Inl e
         | Inr s' \<Rightarrow> Inr (s'\<lparr> prevticker := smb, first := False \<rparr>))"

text \<open>Lines 516 to 525: a stock position.\<close>

definition stock_item :: "real \<Rightarrow> string \<Rightarrow> pstate \<Rightarrow> pitem \<Rightarrow> pyerror + pstate" where
  "stock_item account_value smb s0 ppp =
     (let s = (if rollover_flag s0 \<or> sell_CC_flag s0 \<or> close_CC_flag s0
               then s0\<lparr> vars := (vars s0)\<lparr> l_leg_price := Some (Fl (marketPrice ppp)) \<rparr> \<rparr>
               else s0)
      in case map_of (positions s) smb of
           None \<Rightarrow> Inl KeyError
         | Some r \<Rightarrow>
             (case position_bal r of
                None \<Rightarrow> Inl KeyError
              | Some b \<Rightarrow>
                  (case (l_trade_price (vars s), l_leg_price (vars s), l_action (vars s)) of
                     (Some tp, Some lp, Some a) \<Rightarrow>
                       Inr (s\<lparr> positions := AList.update smb
                         (r\<lparr> price := Some (Fl (marketPrice ppp)), trade_price := Some tp,
                             leg_price := Some lp, Commision := Some (Fl 0),
                             Underlying_size := Some (Fl (position ppp)),
                             position_bal := Some (fadd (Fl (marketValue ppp)) b),
                             acct_bal := Some (Fl account_value), action := Some a,
                             PL_underlying := Some (Fl (unrealizedPNL ppp)),
                             PL_underlying_leg := Some (fmul (Fl (position ppp))
                               (fsub (Fl (marketPrice ppp)) lp)) \<rparr>) (positions s) \<rparr>)
                   | _ \<Rightarrow> Inl UnboundLocalError)))"

text \<open>
  Lines 526 to 537: an option position. \<open>get_delt\<close> is the lookup of \<^verbatim>\<open>ibutil.get_delt\<close>,
  which asks the gateway; it is a parameter of the model.
\<close>

definition option_item ::
  "(string \<Rightarrow> pydate \<Rightarrow> real \<Rightarrow> real) \<Rightarrow> string \<Rightarrow> pydate \<Rightarrow> real \<Rightarrow> pstate \<Rightarrow> pitem
     \<Rightarrow> pyerror + pstate" where
  "option_item get_delt smb doe strk s ppp =
     (case map_of (positions s) smb of
        None \<Rightarrow> Inl KeyError
      | Some r \<Rightarrow>
          (case position_bal r of
             None \<Rightarrow> Inl KeyError
           | Some b \<Rightarrow>
               (case (l_option_trade_price (vars s), l_action (vars s)) of
                  (Some otp, Some a) \<Rightarrow>
                    Inr (s\<lparr> positions := AList.update smb
                      (r\<lparr> DOE := Some doe, strike := Some (Fl strk),
                          option_price := Some (Fl (marketPrice ppp)),
                          option_trade_price := Some otp,
                          position_bal := Some (fadd b (Fl (marketValue ppp))),
                          action := Some a, Option_size := Some (Fl (position ppp)),
                          PL_option := Some (Fl (unrealizedPNL ppp)),
                          delta := Some (Fl (get_delt smb doe strk)) \<rparr>) (positions s) \<rparr>)
                | _ \<Rightarrow> Inl UnboundLocalError)))"

text \<open>Lines 419 to 537: one iteration of the loop over the portfolio.\<close>

definition annotate_item ::
  "rowdict \<Rightarrow> row list \<Rightarrow> real \<Rightarrow> (string \<Rightarrow> pydate \<Rightarrow> real \<Rightarrow> real) \<Rightarrow> pstate \<Rightarrow> pitem
     \<Rightarrow> pyerror + pstate" where
  "annotate_item trades_df yespos account_value get_delt s0 ppp =
     (let smb = symbol (p_contract ppp);
          s1 = (if smb \<noteq> prevticker s0
                then s0\<lparr> first := True, vars := (vars s0)\<lparr> l_action := Some ''OBSERVE'' \<rparr> \<rparr>
                else s0)
      in case (if first s1 then classify_ticker trades_df yespos smb s1 else Inr s1) of
           Inl e \<Rightarrow> Inl e
         | Inr s2 \<Rightarrow>
             (case p_contract ppp of
                Stock _ \<Rightarrow> stock_item account_value smb s2 ppp
              | Option _ doe strk _ \<Rightarrow> option_item get_delt smb doe strk s2 ppp
              | _ \<Rightarrow> Inr s2))"

text \<open>Lines 417 to 537: the loop, from the variables the trade loop left.\<close>

definition annotate ::
  "rowdict \<Rightarrow> row list \<Rightarrow> real \<Rightarrow> (string \<Rightarrow> pydate \<Rightarrow> real \<Rightarrow> real) \<Rightarrow> locals \<Rightarrow> rowdict
     \<Rightarrow> pitem list \<Rightarrow> pyerror + pstate" where
  "annotate trades_df yespos account_value get_delt lv ps port =
     foldE (annotate_item trades_df yespos account_value get_delt)
       \<lparr> first = True, prevticker = ''not a real ticker'', rollover_flag = False,
         sell_CC_flag = False, close_CC_flag = False, vars = lv, positions = ps \<rparr> port"

section \<open>After the close\<close>

text \<open>
  Lines 542 to 561. The frame of the positions keeps the listed columns only, which
  drops the misspelt \<open>Commision\<close>; after 16:00 the rows with an expiration on or before
  today are relabelled.
\<close>

definition reindex :: "row \<Rightarrow> row" where
  "reindex r = r\<lparr> Commision := None \<rparr>"

definition post_close_row :: "pydate \<Rightarrow> row \<Rightarrow> row" where
  "post_close_row today r =
     (case DOE r of
        None \<Rightarrow> r
      | Some doe \<Rightarrow>
          if date_le doe today then
            (if fle (cell (strike r)) (cell (price r)) then r\<lparr> action := Some ''Called Away'' \<rparr>
             else r\<lparr> action := Some ''Expire CC'' \<rparr>)
          else r)"

definition post_close :: "nat \<Rightarrow> pydate \<Rightarrow> row list \<Rightarrow> row list" where
  "post_close hour today port_df =
     (if hour \<ge> 16 then map (post_close_row today) port_df else port_df)"

section \<open>One run of the recorder\<close>

text \<open>
  What a run reads: the clock (the date and time strings, the hour, today's date, and
  whether today is a weekday that is not a holiday), yesterday's positions, the activity
  log, the account value, the gateway's positions, trades and portfolio, the pickled trade
  files by name, and the delta lookup.
\<close>

record env =
  e_log_date :: string
  e_log_time :: string
  e_hour :: nat
  e_today :: pydate
  e_trading_day :: bool
  e_yespos :: "row list"
  e_activity :: "row list"
  e_account_value :: real
  e_pos :: "contract list"
  e_ib_trades :: "trade list"
  e_files :: "string \<Rightarrow> trade list option"
  e_port :: "pitem list"
  e_get_delt :: "string \<Rightarrow> pydate \<Rightarrow> real \<Rightarrow> real"

record outputs =
  o_trades_df :: rowdict
  o_port_df :: "row list"
  o_activity :: "row list"
  o_files :: "string \<Rightarrow> trade list option"

text \<open>Lines 169 to 175: where the day's trades come from.\<close>

definition read_trds :: "env \<Rightarrow> bool \<Rightarrow> pyerror + trade list" where
  "read_trds e recover_trades_flag =
     (if recover_trades_flag then
        (case e_files e ''./data/trades-2023-07-20.pkl'' of
           None \<Rightarrow> Inl FileNotFoundError
         | Some trds \<Rightarrow> Inr trds)
      else Inr (e_ib_trades e))"

text \<open>Line 182: the file a run saves the trades it fetched to.\<close>

definition tradeslogfile :: "string \<Rightarrow> string" where
  "tradeslogfile log_date = ''./data/trades-'' @ log_date @ ''.pkl''"

text \<open>
  Lines 84 to 574. \<open>Inr None\<close> is the early \<^verbatim>\<open>return False\<close> of a day without trading.
\<close>

definition recorder :: "env \<Rightarrow> bool \<Rightarrow> bool \<Rightarrow> pyerror + outputs option" where
  "recorder e read_trades_flag recover_arg =
     (let recover_trades_flag = (if read_trades_flag then False else recover_arg) in
      if \<not> e_trading_day e then Inr None
      else
        (case read_trds e recover_trades_flag of
           Inl err \<Rightarrow> Inl err
         | Inr trds \<Rightarrow>
             let files = (if trds \<noteq> [] \<and> \<not> recover_trades_flag
                          then (e_files e)(tradeslogfile (e_log_date e) \<mapsto> trds)
                          else e_files e)
             in case (if (read_trades_flag \<or> recover_trades_flag) \<and> trds \<noteq> []
                      then process_trades (e_yespos e) (e_account_value e) trds
                      else Inr ([], unbound)) of
                  Inl err \<Rightarrow> Inl err
                | Inr (trades, lv) \<Rightarrow>
                    (case annotate trades (e_yespos e) (e_account_value e) (e_get_delt e) lv
                            (stub_positions (e_log_date e) (e_log_time e) [] (e_pos e))
                            (e_port e) of
                       Inl err \<Rightarrow> Inl err
                     | Inr s \<Rightarrow>
                         let port_df = post_close (e_hour e) (e_today e)
                                         (map (\<lambda>kr. reindex (snd kr)) (positions s))
                         in Inr (Some \<lparr> o_trades_df = trades, o_port_df = port_df,
                                  o_activity = e_activity e @ map snd trades @ port_df,
                                  o_files = files \<rparr>))))"

section \<open>Scenarios\<close>

text \<open>The inputs the concrete runs below are made of, and how they are evaluated.\<close>

definition mk_fill ::
  "contract \<Rightarrow> string \<Rightarrow> real \<Rightarrow> real \<Rightarrow> real \<Rightarrow> real \<Rightarrow> string \<Rightarrow> fill" where
  "mk_fill c sd sh px cm pnl t =
     \<lparr> f_contract = c, exe_side = sd, exe_shares = sh, exe_price = px,
       exedate = ''2023-07-21'', exetime = t, commission = cm, realizedPNL = pnl \<rparr>"

definition optX :: contract where
  "optX = Option ''X'' (Date 2023 8 18) 55 100"

definition day_env :: "row list \<Rightarrow> trade list \<Rightarrow> contract list \<Rightarrow> pitem list \<Rightarrow> env" where
  "day_env yes trds ps prt =
     \<lparr> e_log_date = ''2023-07-21'', e_log_time = ''15:30:00'', e_hour = 15,
       e_today = Date 2023 7 21, e_trading_day = True, e_yespos = yes, e_activity = [],
       e_account_value = 1000, e_pos = ps, e_ib_trades = trds, e_files = Map.empty,
       e_port = prt, e_get_delt = (\<lambda>s d k. - 99) \<rparr>"

definition stockpos :: "string \<Rightarrow> real \<Rightarrow> real \<Rightarrow> pitem" where
  "stockpos s n px =
     \<lparr> p_contract = Stock s, position = n, marketPrice = px, marketValue = n * px,
       unrealizedPNL = 0 \<rparr>"

definition optpos :: "contract \<Rightarrow> real \<Rightarrow> real \<Rightarrow> pitem" where
  "optpos c n px =
     \<lparr> p_contract = c, position = n, marketPrice = px, marketValue = n * px * 100,
       unrealizedPNL = 0 \<rparr>"

definition port_df_of :: "pyerror + outputs option \<Rightarrow> pyerror + row list option" where
  "port_df_of res = (case res of Inl e \<Rightarrow> Inl e | Inr out \<Rightarrow> Inr (map_option o_port_df out))"

definition trades_df_of :: "pyerror + outputs option \<Rightarrow> pyerror + rowdict option" where
  "trades_df_of res = (case res of Inl e \<Rightarrow> Inl e | Inr out \<Rightarrow> Inr (map_option o_trades_df out))"

definition yes_Y :: row where
  "yes_Y = empty_row\<lparr> ticker := Some ''Y'', price := Some (Fl 41), trade_price := Some (Fl 40),
     leg_price := Some (Fl 40), Underlying_size := Some (Fl 100) \<rparr>"

definition sell_cc_X :: trade where
  "sell_cc_X = \<lparr> t_contract = optX, fills = [mk_fill optX ''SLD'' 1 2 1 0 ''10:05''] \<rparr>"

definition buy_X :: trade where
  "buy_X = \<lparr> t_contract = Stock ''X'',
             fills = [mk_fill (Stock ''X'') ''BOT'' 100 50 1 0 ''10:00''] \<rparr>"

definition short_X :: trade where
  "short_X = \<lparr> t_contract = Stock ''X'',
               fills = [mk_fill (Stock ''X'') ''SLD'' 100 50 1 0 ''10:00''] \<rparr>"

definition buy_Z :: trade where
  "buy_Z = \<lparr> t_contract = Stock ''Z'',
             fills = [mk_fill (Stock ''Z'') ''BOT'' 10 7 1 0 ''10:00''] \<rparr>"

text \<open>
  The scenario of the specification: today is the expiration, the price is 105; the row
  with strike 100 is called away, the row with strike 110 expires, the row that expires a
  week later keeps its action.
\<close>

definition scenario_D :: "row list" where
  "scenario_D =
     [empty_row\<lparr> action := Some ''OBSERVE'', price := Some (Fl 105), strike := Some (Fl 100),
                 DOE := Some (Date 2023 7 21) \<rparr>,
      empty_row\<lparr> action := Some ''OBSERVE'', price := Some (Fl 105), strike := Some (Fl 110),
                 DOE := Some (Date 2023 7 21) \<rparr>,
      empty_row\<lparr> action := Some ''OBSERVE'', price := Some (Fl 105), strike := Some (Fl 100),
                 DOE := Some (Date 2023 7 28) \<rparr>]"

text \<open>The row that \<open>sell_cc_X\<close> leaves in the trades, a rollover of the call on X, and a
  row of yesterday's ledger for X.\<close>

definition sell_cc_row :: row where
  "sell_cc_row =
     \<lparr>date = Some ''2023-07-21'', time = Some ''10:05'',
       action = Some ''SELL CC'', ticker = Some ''X'', price = None,
       trade_price = None, leg_price = None, strike = Some (Fl 55),
       DOE = Some (Date 2023 8 18), option_price = Some (Fl 2),
       option_trade_price = Some (Fl 2), Commission = Some (Fl 1),
       Option_size = Some (Fl (- 1)), Underlying_size = None,
       position_bal = None, acct_bal = Some (Fl 1000),
       PL_underlying = None, PL_underlying_leg = None,
       PL_option = Some (Fl 0), delta = None, Commision = None\<rparr>"

definition rollover_X :: trade where
  "rollover_X =
     \<lparr> t_contract = Bag ''X'' [\<lparr> ratio = 1, cl_action = ''BUY'' \<rparr>,
                               \<lparr> ratio = 1, cl_action = ''SELL'' \<rparr>],
       fills = [mk_fill optX ''BOT'' 1 3 1 0 ''10:00'',
                mk_fill (Option ''X'' (Date 2023 9 15) 55 100) ''SLD'' 1 2.5 1 0 ''10:00''] \<rparr>"

definition yes_X :: row where
  "yes_X = empty_row\<lparr> ticker := Some ''X'', price := Some (Fl 49), trade_price := Some (Fl 48),
     leg_price := Some (Fl 48), option_price := Some (Fl 1.5),
     option_trade_price := Some (Fl 1.8), Underlying_size := Some (Fl 100),
     Option_size := Some (Fl (- 1)) \<rparr>"

text \<open>A call on X bought back at 1, and yesterday's row of X with the price 49.5 in
  place of 49.\<close>

definition buy_back_X :: trade where
  "buy_back_X = \<lparr> t_contract = optX, fills = [mk_fill optX ''BOT'' 1 1 1 80 ''10:00''] \<rparr>"

definition yes_X_frac :: row where
  "yes_X_frac = yes_X\<lparr> price := Some (Fl 49.5) \<rparr>"

lemmas trade_defs = process_trades_def process_trade_def option_fill_def option_action_def
  stock_fill_def stock_basis_def bag_fill_def bag_option_fill_def bag_stock_fill_def
  ensure_row_def rows_of_def empty_row_def unbound_def startswith_def cell_def is_float_def
  float64_column_def
  Let_def

lemmas port_defs = annotate_def annotate_item_def classify_ticker_def one_trade_case_def
  sell_cc_case_def close_cc_case_def no_trade_case_def rollover_case_def stock_item_def
  option_item_def stub_row_def count_other_def reindex_def post_close_def post_close_row_def

lemmas scenario_defs = mk_fill_def optX_def day_env_def stockpos_def optpos_def port_df_of_def
  trades_df_of_def yes_Y_def sell_cc_X_def buy_X_def short_X_def buy_Z_def

section \<open>Notions of the statements and proofs\<close>

text \<open>
  In every dictionary the trade loop can reach, a row that holds a leg holds an action:
  each update that writes a size writes the action with it. \<open>good k\<close> says this of a
  dictionary that also has the key \<open>k\<close>.
\<close>

definition labelled :: "rowdict \<Rightarrow> bool" where
  "labelled trades =
     (\<forall>k r. map_of trades k = Some r \<longrightarrow>
        Option_size r \<noteq> None \<or> Underlying_size r \<noteq> None \<longrightarrow> action r \<noteq> None)"

definition has_key :: "rowdict \<Rightarrow> string \<Rightarrow> bool" where
  "has_key trades k = (map_of trades k \<noteq> None)"

definition good :: "string \<Rightarrow> rowdict \<Rightarrow> bool" where
  "good k trades = (labelled trades \<and> has_key trades k)"

text \<open>A position of the portfolio posts to the row of \<open>k\<close> when it is a stock or an option
  of that symbol (lines 516 and 526).\<close>

definition posts_to :: "string \<Rightarrow> pitem \<Rightarrow> bool" where
  "posts_to k ppp =
     (symbol (p_contract ppp) = k \<and>
      (case p_contract ppp of Stock _ \<Rightarrow> True | Option _ _ _ _ \<Rightarrow> True | _ \<Rightarrow> False))"

text \<open>The dollar value a leg of a Bag adds to the order's running total (lines 354 and 369),
  and the key of the row it posts to.\<close>

definition leg_value :: "fill \<Rightarrow> real" where
  "leg_value fl =
     (case f_contract fl of
        Option _ _ _ mult \<Rightarrow>
          exe_price fl * (if exe_side fl = ''SLD'' then exe_shares fl * (- 1) else exe_shares fl)
            * real_of_int mult
      | Stock _ \<Rightarrow> exe_shares fl * exe_price fl
      | _ \<Rightarrow> 0)"

definition is_leg :: "fill \<Rightarrow> bool" where
  "is_leg fl =
     (case f_contract fl of Stock _ \<Rightarrow> True | Option _ _ _ _ \<Rightarrow> True | _ \<Rightarrow> False)"

definition leg_key :: "string \<Rightarrow> string \<Rightarrow> fill \<Rightarrow> string" where
  "leg_key qsym act fl =
     (case f_contract fl of
        Option _ _ _ _ \<Rightarrow>
          if exe_side fl = ''SLD'' \<and> startswith act ''ROLLOVER'' then qsym @ ''*'' else qsym
      | _ \<Rightarrow> qsym)"

section \<open>Classification of combination orders\<close>

text \<open>
  C6. For a Bag with two legs the label is a function of the legs' ratios and actions
  alone, with this priority: both ratios 1 and the actions different gives ROLLOVER;
  otherwise a leg with ratio 100 and action BUY gives BUY WRITE; otherwise the label is
  the unclassified one, which the source spells \<open>Unknown\<close>.
\<close>

theorem classify_priority:
  "classify [l0, l1] =
     Inr (if ratio l0 = 1 \<and> ratio l1 = 1 \<and> cl_action l0 \<noteq> cl_action l1 then ''ROLLOVER''
          else if (ratio l0 = 100 \<and> cl_action l0 = ''BUY'') \<or>
                  (ratio l1 = 100 \<and> cl_action l1 = ''BUY'') then ''BUY WRITE''
          else ''Unknown'')"
  by auto

section \<open>Expired and exercised options\<close>

text \<open>
  C8. The relabelling happens exactly when the hour is 16 or later. Then every row whose
  expiration is on or before today gets the action Called Away when its strike is at
  most its price and Expire CC otherwise, and nothing else of the row changes; a row with
  a later expiration or with no expiration is left as it is. Before 16:00 no row changes.
\<close>

theorem post_close_adjustment:
  "length (post_close hour today df) = length df \<and>
   (\<forall>i < length df.
      post_close hour today df ! i =
        (if 16 \<le> hour \<and> (\<exists>d. DOE (df ! i) = Some d \<and> date_le d today)
         then (df ! i)\<lparr> action :=
                Some (if fle (cell (strike (df ! i))) (cell (price (df ! i)))
                      then ''Called Away'' else ''Expire CC'') \<rparr>
         else df ! i))"
  by (auto simp: post_close_def post_close_row_def split: option.splits)

theorem post_close_adjustment_witness:
  "map action (post_close 16 (Date 2023 7 21) scenario_D) =
     [Some ''Called Away'', Some ''Expire CC'', Some ''OBSERVE''] \<and>
   post_close 15 (Date 2023 7 21) scenario_D = scenario_D"
proof -
  have len: "length scenario_D = 3"
    by (simp add: scenario_D_def)
  have a: "\<forall>i < 3. action (post_close 16 (Date 2023 7 21) scenario_D ! i) =
             [Some ''Called Away'', Some ''Expire CC'', Some ''OBSERVE''] ! i"
    using post_close_adjustment [of 16 "Date 2023 7 21" scenario_D]
    by (simp add: scenario_D_def empty_row_def cell_def All_less_Suc numeral_3_eq_3)
  have b: "length (post_close 16 (Date 2023 7 21) scenario_D) = 3"
    using post_close_adjustment [of 16 "Date 2023 7 21" scenario_D] len by simp
  have "map action (post_close 16 (Date 2023 7 21) scenario_D) =
          [Some ''Called Away'', Some ''Expire CC'', Some ''OBSERVE'']"
    using a b by (intro nth_equalityI) simp_all
  moreover have "post_close 15 (Date 2023 7 21) scenario_D = scenario_D"
    by (simp add: post_close_def)
  ultimately show ?thesis by simp
qed

section \<open>Dictionaries of rows\<close>

text \<open>Updating and reading a dictionary behind rows under other keys; the helpers that
  cannot fail.\<close>

lemma update_append_fresh:
  "map_of al k = None \<Longrightarrow> AList.update k v (al @ bl) = al @ AList.update k v bl"
  by (induction al) (auto split: if_splits)

lemma map_add_fresh:
  "map_of al k = None \<Longrightarrow> (m ++ map_of al) k = m k"
  by (simp add: map_add_def)

lemma cell_Some: "cell (Some v) = v"
  by (simp add: cell_def)

lemma pymax_nonempty: "xs \<noteq> [] \<Longrightarrow> \<exists>m. pymax xs = Inr m"
  by (cases xs) auto

lemma stock_basis_total: "\<exists>lp tp. stock_basis yespos smb sd px u = Inr (lp, tp)"
proof (cases "rows_of yespos smb")
  case Nil
  then show ?thesis by (simp add: stock_basis_def Let_def)
next
  case (Cons y ys)
  then show ?thesis by (simp add: stock_basis_def Let_def)
qed

section \<open>States the trade loop can reach\<close>

text \<open>The trade loop keeps its dictionary \<open>good\<close>: the lemmas go through the fills,
  the orders and the list of trades.\<close>

lemma foldE_append:
  "foldE f s (xs @ ys) = (case foldE f s xs of Inl e \<Rightarrow> Inl e | Inr s' \<Rightarrow> foldE f s' ys)"
  by (induction xs arbitrary: s) (auto split: sum.splits)

lemma foldE_invariant:
  assumes "foldE f s xs = Inr s'" and "P s"
    and "\<And>s x s'. P s \<Longrightarrow> f s x = Inr s' \<Longrightarrow> P s'"
  shows "P s'"
  using assms(1,2)
proof (induction xs arbitrary: s)
  case Nil
  then show ?case by simp
next
  case (Cons x xs)
  then show ?case using assms(3) by (auto split: sum.splits)
qed

lemma good_update:
  "good k trades \<Longrightarrow> action r \<noteq> None \<Longrightarrow> good k (AList.update k' r trades)"
  by (simp add: good_def labelled_def has_key_def update_conv')

lemma good_ensure_row: "good k trades \<Longrightarrow> good k (ensure_row trades k' tk)"
  by (auto simp: good_def labelled_def has_key_def ensure_row_def empty_row_def map_add_def
      split: option.splits if_splits)

lemma good_ensure_row_self: "labelled trades \<Longrightarrow> good k (ensure_row trades k tk)"
  by (auto simp: good_def labelled_def has_key_def ensure_row_def empty_row_def map_add_def
      split: option.splits if_splits)

lemma option_fill_good:
  assumes "good k (fst st)" and "option_fill yespos av smb doe strk st fl = Inr st'"
  shows "good k (fst st')"
proof -
  obtain r where r: "map_of (fst st) smb = Some r"
    using assms(2) by (cases "map_of (fst st) smb") (auto simp: option_fill_def)
  obtain a otp where "option_action yespos smb fl = (a, otp)"
    by (cases "option_action yespos smb fl") auto
  then show ?thesis
    using assms r
    by (auto simp: option_fill_def Let_def good_update split: sum.splits split del: if_split)
qed

lemma stock_fill_good:
  assumes "good k (fst st)" and "stock_fill yespos av smb st fl = Inr st'"
  shows "good k (fst st')"
proof -
  obtain r where r: "map_of (fst st) smb = Some r"
    using assms(2) by (cases "map_of (fst st) smb") (auto simp: stock_fill_def)
  obtain lp tp where
    "stock_basis yespos smb (exe_side fl) (exe_price fl)
       (case Underlying_size r of
          Some u \<Rightarrow> fadd u (Fl (if exe_side fl = ''SLD'' then - exe_shares fl else exe_shares fl))
        | None \<Rightarrow> Fl (if exe_side fl = ''SLD'' then - exe_shares fl else exe_shares fl))
     = Inr (lp, tp)"
    using stock_basis_total by blast
  then show ?thesis
    using assms r
    by (auto simp: stock_fill_def Let_def good_update split: sum.splits split del: if_split)
qed

lemma bag_stock_fill_good:
  assumes "good k (fst (snd st))" and "bag_stock_fill yespos av qsym csym st fl = Inr st'"
  shows "good k (fst (snd st'))"
  using assms
  by (auto simp: bag_stock_fill_def Let_def good_update
      split: sum.splits option.splits prod.splits split del: if_split)

lemma bag_option_fill_good:
  assumes "good k (fst (snd st))"
    and "bag_option_fill yespos av qsym doe strk mult st fl = Inr st'"
  shows "good k (fst (snd st'))"
proof (cases "exe_side fl = ''SLD'' \<and> startswith (b_action (fst st)) ''ROLLOVER''")
  case True
  then show ?thesis
    using assms
    by (auto simp: bag_option_fill_def Let_def good_update good_ensure_row
        split: option.splits)
next
  case False
  then show ?thesis
    using assms
    by (auto simp: bag_option_fill_def Let_def good_update
        split: option.splits split del: if_split)
qed

lemma bag_fill_good:
  assumes "good k (fst (snd st))" and "bag_fill yespos av qsym st fl = Inr st'"
  shows "good k (fst (snd st'))"
  using assms bag_stock_fill_good [of k st yespos av qsym _ fl st']
    bag_option_fill_good [of k st yespos av qsym _ _ _ fl st']
  by (cases "f_contract fl") (auto simp: bag_fill_def)

lemma process_trade_good:
  assumes "labelled (fst st)" and "process_trade yespos av st ttt = Inr st'"
  shows "good (symbol (t_contract ttt)) (fst st')"
proof -
  let ?k = "symbol (t_contract ttt)"
  let ?t1 = "ensure_row (fst st) ?k ?k"
  have g1: "good ?k ?t1"
    using assms(1) by (rule good_ensure_row_self)
  show ?thesis
  proof (cases "t_contract ttt")
    case (Stock c)
    then have run: "foldE (stock_fill yespos av c) (?t1, snd st) (fills ttt) = Inr st'"
      using assms(2) by (simp add: process_trade_def Let_def)
    show ?thesis
      by (rule foldE_invariant [where P = "\<lambda>s. good ?k (fst s)", OF run])
         (simp_all add: g1 stock_fill_good)
  next
    case (Option c d x m)
    then have run: "foldE (option_fill yespos av c d x) (?t1, snd st) (fills ttt) = Inr st'"
      using assms(2) by (simp add: process_trade_def Let_def)
    show ?thesis
      by (rule foldE_invariant [where P = "\<lambda>s. good ?k (fst s)", OF run])
         (simp_all add: g1 option_fill_good)
  next
    case (Bag c legs)
    then obtain a st3 where
      run: "foldE (bag_fill yespos av c)
              (\<lparr> b_action = a, b_commission = 0, b_position_bal = 0 \<rparr>, ?t1,
               (snd st)\<lparr> l_action := Some a \<rparr>) (fills ttt) = Inr st3"
      and st': "st' = snd st3"
      using assms(2) by (auto simp: process_trade_def Let_def split: sum.splits)
    have "good ?k (fst (snd st3))"
      by (rule foldE_invariant [where P = "\<lambda>s. good ?k (fst (snd s))", OF run])
         (simp_all add: g1 bag_fill_good)
    then show ?thesis using st' by simp
  next
    case (Other c)
    then show ?thesis using assms(2) g1 by (auto simp: process_trade_def Let_def)
  qed
qed

lemma process_trades_labelled:
  assumes "foldE (process_trade yespos av) st trds = Inr st'" and "labelled (fst st)"
  shows "labelled (fst st')"
proof (rule foldE_invariant [where P = "\<lambda>s. labelled (fst s)", OF assms(1)])
  show "labelled (fst st)" by (rule assms(2))
next
  fix s x s'
  assume "labelled (fst s)" and "process_trade yespos av s x = Inr s'"
  then have "good (symbol (t_contract x)) (fst s')" by (rule process_trade_good)
  then show "labelled (fst s')" by (simp add: good_def)
qed

lemma process_trade_stock_snoc:
  "process_trade yespos av st \<lparr> t_contract = Stock smb, fills = fs @ [fl] \<rparr> =
     (case process_trade yespos av st \<lparr> t_contract = Stock smb, fills = fs \<rparr> of
        Inl e \<Rightarrow> Inl e
      | Inr st' \<Rightarrow> stock_fill yespos av smb st' fl)"
  by (simp add: process_trade_def Let_def foldE_append split: sum.splits)

section \<open>A stock sale with no row in yesterday's ledger\<close>

text \<open>
  The claim C1 as stated fails: X is sold at 50 with nothing in yesterday's ledger, and the
  row gets trade price 50, leg price 50 and the action SLD, which does not start with ERROR.
\<close>

theorem unmatched_sell_counterexample:
  "process_trades [] 1000 [short_X]
     = Inr ([(''X'',
        \<lparr>date = Some ''2023-07-21'', time = Some ''10:00'',
           action = Some ''SLD'', ticker = Some ''X'', price = Some (Fl 50),
           trade_price = Some (Fl 50), leg_price = Some (Fl 50),
           strike = None, DOE = None, option_price = None,
           option_trade_price = None, Commission = Some (Fl 1),
           Option_size = None, Underlying_size = Some (Fl (- 100)),
           position_bal = Some (Fl (- 5000)), acct_bal = Some (Fl 1000),
           PL_underlying = Some (Fl 0), PL_underlying_leg = Some (Fl 0),
           PL_option = None, delta = None, Commision = None\<rparr>)],
      \<lparr>l_action = Some ''SLD'', l_trade_price = Some (Fl 50),
         l_leg_price = Some (Fl 50), l_option_trade_price = None\<rparr>) \<and>
   \<not> startswith ''SLD'' ''ERROR'' \<and> Fl 50 \<noteq> Fl 0"
  by (simp add: trade_defs scenario_defs)

text \<open>
  C1, amended. In any run of the trade loop, a fill with side SLD of a stock order, for a
  symbol with no row in yesterday's ledger, posts the fill's own execution price as trade
  price and as leg price (lines 295 to 297). The action is SLD, followed by the label
  already in the row when an option leg was logged for the symbol before (lines 260 to
  264); it does not start with ERROR, and the run goes on. The fill is the one after the
  fills \<open>fs\<close> of its order, which comes after the trades \<open>trds\<close>.
\<close>

theorem unmatched_sell_in_a_run:
  assumes "process_trades yespos av (trds @ [\<lparr> t_contract = Stock smb, fills = fs \<rparr>])
             = Inr (trades, lv)"
    and "rows_of yespos smb = []" and "exe_side fl = ''SLD''"
  shows "\<exists>r r' lv'.
      process_trades yespos av (trds @ [\<lparr> t_contract = Stock smb, fills = fs @ [fl] \<rparr>])
        = Inr (AList.update smb r' trades, lv') \<and>
      map_of trades smb = Some r \<and>
      trade_price r' = Some (Fl (exe_price fl)) \<and>
      leg_price r' = Some (Fl (exe_price fl)) \<and>
      (Option_size r = None \<and> action r' = Some ''SLD'' \<or>
       Option_size r \<noteq> None \<and>
         (\<exists>a. action r = Some a \<and> action r' = Some (''SLD '' @ a))) \<and>
      (\<exists>a'. action r' = Some a' \<and> \<not> startswith a' ''ERROR'')"
proof -
  obtain s1 where
    pre: "foldE (process_trade yespos av) ([], unbound) trds = Inr s1" and
    last: "process_trade yespos av s1 \<lparr> t_contract = Stock smb, fills = fs \<rparr> = Inr (trades, lv)"
    using assms(1) by (auto simp: process_trades_def foldE_append split: sum.splits)
  have "labelled (fst s1)"
    using process_trades_labelled [OF pre] by (simp add: labelled_def)
  from process_trade_good [OF this last]
  have lab: "labelled trades" and key: "map_of trades smb \<noteq> None"
    by (simp_all add: good_def has_key_def)
  from key obtain r where r: "map_of trades smb = Some r" by blast
  have act: "Option_size r \<noteq> None \<longrightarrow> (\<exists>a. action r = Some a)"
    using lab r by (auto simp: labelled_def)
  have run: "process_trades yespos av (trds @ [\<lparr> t_contract = Stock smb, fills = fs @ [fl] \<rparr>])
        = stock_fill yespos av smb (trades, lv) fl"
    using pre last
    by (cases "stock_fill yespos av smb (trades, lv) fl")
       (simp_all add: process_trades_def foldE_append process_trade_stock_snoc)
  show ?thesis
    unfolding run using assms(2,3) r act
    by (auto simp: stock_fill_def stock_basis_def Let_def startswith_def)
qed

theorem unmatched_sell_in_a_run_witness:
  "\<exists>r' lv'.
      process_trades [] 1000
          ([sell_cc_X] @ [\<lparr> t_contract = Stock ''X'',
              fills = [] @ [mk_fill (Stock ''X'') ''SLD'' 100 50 1 0 ''10:10''] \<rparr>])
        = Inr (AList.update ''X'' r' [(''X'', sell_cc_row)], lv') \<and>
      trade_price r' = Some (Fl 50) \<and> leg_price r' = Some (Fl 50) \<and>
      action r' = Some ''SLD SELL CC''"
proof -
  have pre: "process_trades [] 1000
      ([sell_cc_X] @ [\<lparr> t_contract = Stock ''X'', fills = [] \<rparr>])
      = Inr ([(''X'', sell_cc_row)], \<lparr>l_action = Some ''SELL CC'', l_trade_price = None,
         l_leg_price = None, l_option_trade_price = Some (Fl 2)\<rparr>)"
    by (simp add: trade_defs scenario_defs sell_cc_row_def)
  have none: "rows_of [] ''X'' = []"
    by (simp add: rows_of_def)
  have sld: "exe_side (mk_fill (Stock ''X'') ''SLD'' 100 50 1 0 ''10:10'') = ''SLD''"
    by (simp add: mk_fill_def)
  from unmatched_sell_in_a_run [OF pre none sld] show ?thesis
    by (auto simp: sell_cc_row_def mk_fill_def)
qed

section \<open>Rollover orders\<close>

text \<open>
  The claim C2 as stated fails when yesterday's ledger has no row for the ticker: the
  buy-back leg at 3 gives the row of X the option trade price 3, today's execution price.
\<close>

theorem rollover_counterexample:
  "process_trades [] 1000 [rollover_X]
     = Inr ([(''X'',
        \<lparr>date = Some ''2023-07-21'', time = Some ''10:00'',
           action = Some ''ROLLOVER CLOSE'', ticker = Some ''X'',
           price = None, trade_price = None, leg_price = None,
           strike = Some (Fl 55), DOE = Some (Date 2023 8 18),
           option_price = Some (Fl 3), option_trade_price = Some (Fl 3),
           Commission = Some (Fl 1), Option_size = Some (Fl 1),
           Underlying_size = None, position_bal = Some (Fl 300),
           acct_bal = Some (Fl 1000), PL_underlying = None,
           PL_underlying_leg = None, PL_option = Some (Fl 0), delta = None,
           Commision = None\<rparr>),
       (''X*'',
        \<lparr>date = Some ''2023-07-21'', time = Some ''10:00'',
           action = Some ''ROLLOVER WRITE'', ticker = Some ''X'',
           price = None, trade_price = None, leg_price = None,
           strike = Some (Fl 55), DOE = Some (Date 2023 9 15),
           option_price = Some (Fl (5 / 2)),
           option_trade_price = Some (Fl (5 / 2)), Commission = Some (Fl 1),
           Option_size = Some (Fl (- 1)), Underlying_size = None,
           position_bal = Some (Fl 50), acct_bal = Some (Fl 1000),
           PL_underlying = None, PL_underlying_leg = None,
           PL_option = Some (Fl 0), delta = None, Commision = None\<rparr>)],
      \<lparr>l_action = Some ''ROLLOVER WRITE'', l_trade_price = None,
         l_leg_price = None, l_option_trade_price = Some (Fl (5 / 2))\<rparr>)"
  by (simp add: rollover_X_def trade_defs scenario_defs)

text \<open>
  C2, amended. A Bag classified ROLLOVER whose fills are a bought option leg and a sold
  option leg, in either order, on a dictionary with no row yet under the ticker or under
  the ticker followed by an asterisk, adds exactly two rows. The ticker's row has the
  action ROLLOVER CLOSE; its option trade price is the one of yesterday's row for the
  ticker when yesterday's ledger has exactly one such row (line 350), and the bought leg's
  execution price otherwise. The asterisk row has the action ROLLOVER WRITE and the sold
  leg's execution price as option trade price.
\<close>

theorem rollover_two_rows:
  assumes "classify legs = Inr ''ROLLOVER''"
    and "map_of trades smb = None" and "map_of trades (smb @ ''*'') = None"
    and "f_contract b = Option s1 d1 k1 m1" and "exe_side b = ''BOT''"
    and "f_contract w = Option s2 d2 k2 m2" and "exe_side w = ''SLD''"
    and "fls = [b, w] \<or> fls = [w, b]"
  shows "\<exists>rc rw lv'.
      process_trade yespos av (trades, lv) \<lparr> t_contract = Bag smb legs, fills = fls \<rparr>
        = Inr (trades @ [(smb, rc), (smb @ ''*'', rw)], lv') \<and>
      ticker rc = Some smb \<and> action rc = Some ''ROLLOVER CLOSE'' \<and>
      option_trade_price rc =
        Some (case rows_of yespos smb of [y] \<Rightarrow> cell (option_trade_price y)
              | _ \<Rightarrow> Fl (exe_price b)) \<and>
      ticker rw = Some smb \<and> action rw = Some ''ROLLOVER WRITE'' \<and>
      option_trade_price rw = Some (Fl (exe_price w))"
  using assms
  by (auto simp: process_trade_def bag_fill_def bag_option_fill_def ensure_row_def
      update_append_fresh map_add_fresh startswith_def Let_def)

theorem rollover_two_rows_witness:
  "\<exists>rc rw lv'.
      process_trade [yes_X] 1000 ([], unbound) rollover_X
        = Inr ([] @ [(''X'', rc), (''X'' @ ''*'', rw)], lv') \<and>
      ticker rc = Some ''X'' \<and> action rc = Some ''ROLLOVER CLOSE'' \<and>
      option_trade_price rc = Some (Fl 1.8) \<and>
      ticker rw = Some ''X'' \<and> action rw = Some ''ROLLOVER WRITE'' \<and>
      option_trade_price rw = Some (Fl 2.5)"
  using rollover_two_rows [of "[\<lparr> ratio = 1, cl_action = ''BUY'' \<rparr>,
        \<lparr> ratio = 1, cl_action = ''SELL'' \<rparr>]" "[]" "''X''"
      "mk_fill optX ''BOT'' 1 3 1 0 ''10:00''" "''X''" "Date 2023 8 18" 55 100
      "mk_fill (Option ''X'' (Date 2023 9 15) 55 100) ''SLD'' 1 2.5 1 0 ''10:00''"
      "''X''" "Date 2023 9 15" 55 100
      "[mk_fill optX ''BOT'' 1 3 1 0 ''10:00'',
        mk_fill (Option ''X'' (Date 2023 9 15) 55 100) ''SLD'' 1 2.5 1 0 ''10:00'']"
      "[yes_X]" 1000 unbound]
  by (simp add: rollover_X_def yes_X_def rows_of_def cell_def empty_row_def mk_fill_def optX_def)

section \<open>A stock leg and an option leg of one ticker\<close>

text \<open>
  The claim C5 as stated fails: X is bought at 10:00 and a call on X is sold at 10:05. The
  stock order processed first gives a row with the time 10:05, the option order processed
  first gives a row with the time 10:00.
\<close>

theorem leg_order_counterexample:
  "process_trades [] 1000 [buy_X, sell_cc_X]
     = Inr ([(''X'',
        \<lparr>date = Some ''2023-07-21'', time = Some ''10:05'',
           action = Some ''BOT SELL CC'', ticker = Some ''X'',
           price = Some (Fl 50), trade_price = Some (Fl 50),
           leg_price = Some (Fl 50), strike = Some (Fl 55),
           DOE = Some (Date 2023 8 18), option_price = Some (Fl 2),
           option_trade_price = Some (Fl 2), Commission = Some (Fl 2),
           Option_size = Some (Fl (- 1)), Underlying_size = Some (Fl 100),
           position_bal = Some (Fl 5000), acct_bal = Some (Fl 1000),
           PL_underlying = Some (Fl 0), PL_underlying_leg = Some (Fl 0),
           PL_option = Some (Fl 0), delta = None, Commision = None\<rparr>)],
      \<lparr>l_action = Some ''BOT SELL CC'', l_trade_price = Some (Fl 50),
         l_leg_price = Some (Fl 50), l_option_trade_price = Some (Fl 2)\<rparr>) \<and>
   process_trades [] 1000 [sell_cc_X, buy_X]
     = Inr ([(''X'',
        \<lparr>date = Some ''2023-07-21'', time = Some ''10:00'',
           action = Some ''BOT SELL CC'', ticker = Some ''X'',
           price = Some (Fl 50), trade_price = Some (Fl 50),
           leg_price = Some (Fl 50), strike = Some (Fl 55),
           DOE = Some (Date 2023 8 18), option_price = Some (Fl 2),
           option_trade_price = Some (Fl 2), Commission = Some (Fl 2),
           Option_size = Some (Fl (- 1)), Underlying_size = Some (Fl 100),
           position_bal = Some (Fl 5000), acct_bal = Some (Fl 1000),
           PL_underlying = Some (Fl 0), PL_underlying_leg = Some (Fl 0),
           PL_option = Some (Fl 0), delta = None, Commision = None\<rparr>)],
      \<lparr>l_action = Some ''BOT SELL CC'', l_trade_price = Some (Fl 50),
         l_leg_price = Some (Fl 50), l_option_trade_price = Some (Fl 2)\<rparr>) \<and>
   ''10:05'' \<noteq> ''10:00''"
  by (simp add: trade_defs scenario_defs)

text \<open>
  C5, amended. For a ticker with no row yet, a stock order with one fill and an option
  order with one fill give the same merged row in either order, the date and time apart:
  these two are the ones of the fill processed last. The action is the stock side followed
  by the option label in both orders, the commission is the sum of the two, and every
  field that either leg posts is present in the merged row.
\<close>

theorem stock_option_order_independent:
  assumes "map_of trades smb = None"
  shows "\<exists>r lv1 lv2.
      foldE (process_trade yespos av) (trades, lv)
          [\<lparr> t_contract = Stock smb, fills = [fs] \<rparr>,
           \<lparr> t_contract = Option smb doe k m, fills = [fo] \<rparr>]
        = Inr (trades @ [(smb, r)], lv1) \<and>
      foldE (process_trade yespos av) (trades, lv)
          [\<lparr> t_contract = Option smb doe k m, fills = [fo] \<rparr>,
           \<lparr> t_contract = Stock smb, fills = [fs] \<rparr>]
        = Inr (trades @ [(smb, r\<lparr> date := Some (exedate fs), time := Some (exetime fs) \<rparr>)], lv2) \<and>
      date r = Some (exedate fo) \<and> time r = Some (exetime fo) \<and>
      action r = Some (exe_side fs @ '' '' @ fst (option_action yespos smb fo)) \<and>
      price r = Some (Fl (exe_price fs)) \<and>
      Underlying_size r
        = Some (Fl (if exe_side fs = ''SLD'' then - exe_shares fs else exe_shares fs)) \<and>
      trade_price r \<noteq> None \<and> leg_price r \<noteq> None \<and>
      PL_underlying r = Some (Fl (realizedPNL fs)) \<and>
      option_price r = Some (Fl (exe_price fo)) \<and>
      Option_size r
        = Some (Fl (if exe_side fo = ''SLD'' then exe_shares fo * (- 1) else exe_shares fo)) \<and>
      strike r = Some (Fl k) \<and> DOE r = Some doe \<and>
      PL_option r = Some (Fl (realizedPNL fo)) \<and>
      Commission r = Some (Fl (commission fs + commission fo))"
proof -
  obtain lp tp where
    "stock_basis yespos smb (exe_side fs) (exe_price fs)
       (Fl (if exe_side fs = ''SLD'' then - exe_shares fs else exe_shares fs)) = Inr (lp, tp)"
    using stock_basis_total by blast
  then show ?thesis
    using assms
    by (cases "option_action yespos smb fo")
       (simp add: process_trade_def stock_fill_def option_fill_def ensure_row_def
        update_append_fresh map_add_fresh Let_def empty_row_def add.commute split del: if_split)
qed

theorem stock_option_order_independent_witness:
  "\<exists>r lv1 lv2.
      foldE (process_trade [] 1000) ([], unbound) [buy_X, sell_cc_X]
        = Inr ([] @ [(''X'', r)], lv1) \<and>
      foldE (process_trade [] 1000) ([], unbound) [sell_cc_X, buy_X]
        = Inr ([] @ [(''X'', r\<lparr> date := Some ''2023-07-21'', time := Some ''10:00'' \<rparr>)], lv2) \<and>
      date r = Some ''2023-07-21'' \<and> time r = Some ''10:05'' \<and>
      action r = Some ''BOT SELL CC'' \<and> price r = Some (Fl 50) \<and>
      Underlying_size r = Some (Fl 100) \<and> option_price r = Some (Fl 2) \<and>
      Option_size r = Some (Fl (- 1)) \<and> Commission r = Some (Fl 2)"
  using stock_option_order_independent [of "[]" "''X''" "[]" 1000 unbound
      "mk_fill (Stock ''X'') ''BOT'' 100 50 1 0 ''10:00''" "Date 2023 8 18" 55 100
      "mk_fill optX ''SLD'' 1 2 1 0 ''10:05''"]
  by (auto simp: scenario_defs option_action_def)

section \<open>Closing a covered call\<close>

text \<open>
  When the two price columns of yesterday's ledger are read as float columns, the basis of
  a bought-back call comes from yesterday: yesterday's ledger has exactly one row for the
  ticker, its option price and price pass the test of lines 211 to 214, and today's only
  order for the ticker is an option order with one BOT fill. Then the trade row has the
  action CLOSE CC and yesterday's option trade price, and no trade price of its own; when
  the portfolio loop meets the ticker's stock position and option position (in either
  order), the row of the positions gets yesterday's trade price and yesterday's option
  trade price.
\<close>

lemma close_cc_basis_from_yesterday:
  assumes "rows_of yespos smb = [y]"
    and "is_float option_price yespos y" and "is_float price yespos y"
    and "exe_side fl = ''BOT''"
    and "map_of trades smb = None"
    and "filter (\<lambda>kr. ticker (snd kr) = Some smb) trades = []"
    and "prevticker s \<noteq> smb"
    and "map_of (positions s) smb = Some p0" and "position_bal p0 = Some b"
    and "p_contract ps = Stock smb" and "p_contract po = Option smb doe' k' m'"
    and "port = [ps, po] \<or> port = [po, ps]"
  shows "\<exists>r lv' s' p.
      process_trade yespos av (trades, lv) \<lparr> t_contract = Option smb doe k m, fills = [fl] \<rparr>
        = Inr (trades @ [(smb, r)], lv') \<and>
      action r = Some ''CLOSE CC'' \<and>
      option_trade_price r = Some (cell (option_trade_price y)) \<and>
      trade_price r = None \<and>
      foldE (annotate_item (trades @ [(smb, r)]) yespos av get_delt) s port = Inr s' \<and>
      map_of (positions s') smb = Some p \<and>
      trade_price p = Some (cell (trade_price y)) \<and>
      option_trade_price p = Some (cell (option_trade_price y))"
  using assms
  by (auto simp: process_trade_def option_fill_def option_action_def ensure_row_def
        update_append_fresh map_add_fresh Let_def empty_row_def
        annotate_item_def classify_ticker_def one_trade_case_def close_cc_case_def
        stock_item_def option_item_def update_conv' cell_Some
      split del: if_split)

text \<open>
  C7. Yesterday's ledger is the one row of X with price 49, option price 1.5, trade price
  48 and option trade price 1.8: both prices are populated. Today the call on X is bought
  back at 1, and the portfolio holds the stock and the call of X. The price column holds
  whole numbers only, so its cells are not \<^verbatim>\<open>np.float64\<close> and the test of lines 211 to
  214 fails: the trade row is labelled BUY CALL and keeps today's price 1 as option trade
  price, and the portfolio loop, which assigns no basis for that label, stops at line 521
  on the unassigned trade price. With the price 49.5 in the same ledger the trade row is
  CLOSE CC with option trade price 1.8, and the row of the positions gets trade price 48
  and option trade price 1.8.
\<close>

theorem close_cc_needs_float_column:
  "process_trades [yes_X] 1000 [buy_back_X]
     = Inr ([(''X'',
        \<lparr>date = Some ''2023-07-21'', time = Some ''10:00'',
           action = Some ''BUY CALL'', ticker = Some ''X'', price = None,
           trade_price = None, leg_price = None, strike = Some (Fl 55),
           DOE = Some (Date 2023 8 18), option_price = Some (Fl 1),
           option_trade_price = Some (Fl 1), Commission = Some (Fl 1),
           Option_size = Some (Fl 1), Underlying_size = None,
           position_bal = None, acct_bal = Some (Fl 1000),
           PL_underlying = None, PL_underlying_leg = None,
           PL_option = Some (Fl 80), delta = None, Commision = None\<rparr>)],
      \<lparr>l_action = Some ''BUY CALL'', l_trade_price = None,
         l_leg_price = None, l_option_trade_price = Some (Fl 1)\<rparr>) \<and>
   recorder (day_env [yes_X] [buy_back_X] [Stock ''X'', optX]
      [stockpos ''X'' 100 52, optpos optX 0 1]) True False
     = Inl UnboundLocalError \<and>
   process_trades [yes_X_frac] 1000 [buy_back_X]
     = Inr ([(''X'',
        \<lparr>date = Some ''2023-07-21'', time = Some ''10:00'',
           action = Some ''CLOSE CC'', ticker = Some ''X'', price = None,
           trade_price = None, leg_price = None, strike = Some (Fl 55),
           DOE = Some (Date 2023 8 18), option_price = Some (Fl 1),
           option_trade_price = Some (Fl (9 / 5)), Commission = Some (Fl 1),
           Option_size = Some (Fl 1), Underlying_size = None,
           position_bal = None, acct_bal = Some (Fl 1000),
           PL_underlying = None, PL_underlying_leg = None,
           PL_option = Some (Fl 80), delta = None, Commision = None\<rparr>)],
      \<lparr>l_action = Some ''CLOSE CC'', l_trade_price = None,
         l_leg_price = None, l_option_trade_price = Some (Fl (9 / 5))\<rparr>) \<and>
   port_df_of (recorder (day_env [yes_X_frac] [buy_back_X] [Stock ''X'', optX]
      [stockpos ''X'' 100 52, optpos optX 0 1]) True False)
     = Inr (Some
       [\<lparr>date = Some ''2023-07-21'', time = Some ''15:30:00'',
           action = Some ''OBSERVE'', ticker = Some ''X'',
           price = Some (Fl 52), trade_price = Some (Fl 48),
           leg_price = Some (Fl 52), strike = Some (Fl 55),
           DOE = Some (Date 2023 8 18), option_price = Some (Fl 1),
           option_trade_price = Some (Fl (9 / 5)), Commission = None,
           Option_size = Some (Fl 0), Underlying_size = Some (Fl 100),
           position_bal = Some (Fl 5200), acct_bal = Some (Fl 1000),
           PL_underlying = Some (Fl 0), PL_underlying_leg = Some (Fl 0),
           PL_option = Some (Fl 0), delta = Some (Fl (- 99)),
           Commision = None\<rparr>])"
  by (simp add: recorder_def read_trds_def trade_defs port_defs scenario_defs yes_X_def
      yes_X_frac_def buy_back_X_def)

section \<open>The position balance\<close>

text \<open>The classification of a ticker leaves the positions alone; a stock or option
  position adds its market value to the balance of its row.\<close>

lemma sell_cc_case_positions:
  "sell_cc_case yespos smb tr s = Inr s' \<Longrightarrow> positions s' = positions s"
  by (auto simp: sell_cc_case_def Let_def split: if_splits sum.splits)

lemma close_cc_case_positions:
  "close_cc_case yespos smb tr s = Inr s' \<Longrightarrow> positions s' = positions s"
  by (auto simp: close_cc_case_def split: if_splits list.splits)

lemma buy_or_sld_positions:
  assumes "(case action tr of
               None \<Rightarrow> Inl AttributeError
             | Some a \<Rightarrow>
                 if a = ''BUY WRITE'' \<or> startswith a ''BOT'' then
                   (case map_of trs smb of
                      None \<Rightarrow> Inl KeyError
                    | Some t \<Rightarrow>
                        (case trs of
                           [] \<Rightarrow> Inl IndexError
                         | t0 # _ \<Rightarrow>
                             Inr (s\<lparr> vars := (vars s)\<lparr> l_trade_price := Some (cell (trade_price t)),
                                   l_leg_price := Some (cell (leg_price t)),
                                   l_option_trade_price :=
                                     Some (cell (option_trade_price (snd t0))) \<rparr> \<rparr>)))
                 else if a = ''SLD'' then
                   (case rows_of yespos smb of
                      [y] \<Rightarrow>
                        (case map_of trs smb of
                           None \<Rightarrow> Inl KeyError
                         | Some t \<Rightarrow>
                             Inr (s\<lparr> vars := (vars s)\<lparr> l_trade_price := Some (cell (trade_price y)),
                                   l_leg_price := Some (cell (leg_price t)),
                                   l_option_trade_price :=
                                     Some (cell (option_trade_price y)) \<rparr> \<rparr>))
                    | _ \<Rightarrow> Inr s)
                 else Inr s) = Inr s'"
  shows "positions s' = positions s"
proof (cases "action tr")
  case None
  then show ?thesis using assms by simp
next
  case (Some a)
  show ?thesis
  proof (cases "a = ''BUY WRITE'' \<or> startswith a ''BOT''")
    case True
    then show ?thesis using assms Some
      by (cases "map_of trs smb"; cases trs) auto
  next
    case nb: False
    show ?thesis
    proof (cases "a = ''SLD''")
      case True
      then show ?thesis using assms Some nb
        by (cases "map_of trs smb"; cases "rows_of yespos smb") (auto split: list.splits)
    next
      case False
      then show ?thesis using assms Some nb by auto
    qed
  qed
qed

lemma one_trade_case_positions:
  assumes "one_trade_case trades_df yespos smb trs s = Inr s'"
  shows "positions s' = positions s"
proof (cases "map_of trades_df smb")
  case None
  then show ?thesis using assms by (simp add: one_trade_case_def)
next
  case (Some tr)
  show ?thesis
  proof (cases "action tr = Some ''SELL CC''")
    case True
    with assms Some have "sell_cc_case yespos smb tr s = Inr s'"
      by (simp add: one_trade_case_def)
    then show ?thesis by (rule sell_cc_case_positions)
  next
    case nsell: False
    show ?thesis
    proof (cases "action tr = Some ''CLOSE CC''")
      case True
      with assms Some nsell have "close_cc_case yespos smb tr s = Inr s'"
        by (simp add: one_trade_case_def)
      then show ?thesis by (rule close_cc_case_positions)
    next
      case False
      with assms Some nsell show ?thesis
        by (simp add: one_trade_case_def buy_or_sld_positions)
    qed
  qed
qed

lemma no_trade_case_positions:
  "no_trade_case yespos smb s = Inr s' \<Longrightarrow> positions s' = positions s"
  by (auto simp: no_trade_case_def split: list.splits)

lemma rollover_case_positions:
  "rollover_case yespos smb trs s = Inr s' \<Longrightarrow> positions s' = positions s"
  by (auto simp: rollover_case_def split: sum.splits option.splits)

lemma classify_ticker_positions:
  assumes "classify_ticker trades_df yespos smb s = Inr s'"
  shows "positions s' = positions s"
proof -
  let ?s = "s\<lparr> rollover_flag := False, sell_CC_flag := False, close_CC_flag := False \<rparr>"
  let ?trs = "filter (\<lambda>kr. ticker (snd kr) = Some smb) trades_df"
  obtain s1 where
    s1: "(if length ?trs = 1 then one_trade_case trades_df yespos smb ?trs ?s
          else if length ?trs = 0 then no_trade_case yespos smb ?s
          else if length ?trs = 2 then rollover_case yespos smb ?trs ?s
          else Inr (?s\<lparr> vars := (vars ?s)\<lparr> l_trade_price := Some (Fl (- 9999)),
                             l_leg_price := Some (Fl (- 9999)) \<rparr> \<rparr>)) = Inr s1"
    and s': "s' = s1\<lparr> prevticker := smb, first := False \<rparr>"
    using assms by (auto simp: classify_ticker_def Let_def split: sum.splits)
  have "positions s1 = positions ?s"
    using s1 one_trade_case_positions [of trades_df yespos smb ?trs ?s s1]
      no_trade_case_positions [of yespos smb ?s s1]
      rollover_case_positions [of yespos smb ?trs ?s s1]
    by (auto split: if_splits)
  then show ?thesis using s' by simp
qed

lemma stock_item_bal:
  assumes "stock_item av smb s ppp = Inr s'"
    and "map_of (positions s) k = Some r" and "position_bal r = Some (Fl b)"
  shows "\<exists>r'. map_of (positions s') k = Some r' \<and>
           position_bal r' = Some (Fl (b + (if k = smb then marketValue ppp else 0)))"
  using assms
  by (auto simp: stock_item_def Let_def update_conv'
      split: if_splits option.splits)

lemma option_item_bal:
  assumes "option_item gd smb doe strk s ppp = Inr s'"
    and "map_of (positions s) k = Some r" and "position_bal r = Some (Fl b)"
  shows "\<exists>r'. map_of (positions s') k = Some r' \<and>
           position_bal r' = Some (Fl (b + (if k = smb then marketValue ppp else 0)))"
  using assms
  by (auto simp: option_item_def Let_def update_conv'
      split: if_splits option.splits)

lemma annotate_item_bal:
  assumes "annotate_item trades_df yespos av gd s ppp = Inr s'"
    and "map_of (positions s) k = Some r" and "position_bal r = Some (Fl b)"
  shows "\<exists>r'. map_of (positions s') k = Some r' \<and>
           position_bal r' = Some (Fl (b + (if posts_to k ppp then marketValue ppp else 0)))"
proof -
  let ?smb = "symbol (p_contract ppp)"
  let ?s1 = "if ?smb \<noteq> prevticker s
             then s\<lparr> first := True, vars := (vars s)\<lparr> l_action := Some ''OBSERVE'' \<rparr> \<rparr> else s"
  obtain s2 where s2: "(if first ?s1 then classify_ticker trades_df yespos ?smb ?s1 else Inr ?s1) = Inr s2"
    and step: "(case p_contract ppp of
                Stock _ \<Rightarrow> stock_item av ?smb s2 ppp
              | Option _ doe strk _ \<Rightarrow> option_item gd ?smb doe strk s2 ppp
              | _ \<Rightarrow> Inr s2) = Inr s'"
    using assms(1) by (auto simp: annotate_item_def Let_def split: sum.splits)
  have "positions s2 = positions s"
    using s2 classify_ticker_positions [of trades_df yespos ?smb ?s1 s2]
    by (auto split: if_splits)
  then have k2: "map_of (positions s2) k = Some r" using assms(2) by simp
  show ?thesis
  proof (cases "p_contract ppp")
    case (Stock x)
    then show ?thesis
      using step stock_item_bal [OF _ k2 assms(3), of av ?smb ppp s']
      by (auto simp: posts_to_def)
  next
    case (Option x d st m)
    then show ?thesis
      using step option_item_bal [OF _ k2 assms(3), of gd ?smb d st ppp s']
      by (auto simp: posts_to_def)
  next
    case (Bag x l)
    then show ?thesis using step k2 assms(3) by (auto simp: posts_to_def)
  next
    case (Other x)
    then show ?thesis using step k2 assms(3) by (auto simp: posts_to_def)
  qed
qed

lemma foldE_annotate_bal:
  "foldE (annotate_item trades_df yespos av gd) s port = Inr s' \<Longrightarrow>
   map_of (positions s) k = Some r \<Longrightarrow> position_bal r = Some (Fl b) \<Longrightarrow>
   \<exists>r'. map_of (positions s') k = Some r' \<and>
     position_bal r' = Some (Fl (b + sum_list (map marketValue (filter (posts_to k) port))))"
proof (induction port arbitrary: s r b)
  case Nil
  then show ?case by simp
next
  case (Cons ppp port)
  from Cons.prems(1) obtain s1 where
    one: "annotate_item trades_df yespos av gd s ppp = Inr s1" and
    rest: "foldE (annotate_item trades_df yespos av gd) s1 port = Inr s'"
    by (auto split: sum.splits)
  from annotate_item_bal [OF one Cons.prems(2) Cons.prems(3)] obtain r1 where
    r1: "map_of (positions s1) k = Some r1"
      "position_bal r1 = Some (Fl (b + (if posts_to k ppp then marketValue ppp else 0)))"
    by blast
  from Cons.IH [OF rest r1] show ?case
    by (auto simp: algebra_simps)
qed

lemma stub_positions_lookup:
  "map_of (stub_positions ld lt ps cs) k =
     (case map_of ps k of
        Some r \<Rightarrow> Some r
      | None \<Rightarrow> if k \<in> symbol ` set cs then Some (stub_row ld lt k) else None)"
  by (induction cs arbitrary: ps) (auto simp: map_add_def split: option.splits)

lemma stock_fill_bal:
  assumes "stock_fill yespos av smb (trades, lv) fl = Inr (trades', lv')"
  shows "\<exists>r'. map_of trades' smb = Some r' \<and>
           position_bal r' = Some (fmul (cell (Underlying_size r')) (Fl (exe_price fl)))"
proof -
  obtain r where r: "map_of trades smb = Some r"
    using assms by (cases "map_of trades smb") (auto simp: stock_fill_def)
  obtain lp tp where
    "stock_basis yespos smb (exe_side fl) (exe_price fl)
       (case Underlying_size r of
          Some u \<Rightarrow> fadd u (Fl (if exe_side fl = ''SLD'' then - exe_shares fl else exe_shares fl))
        | None \<Rightarrow> Fl (if exe_side fl = ''SLD'' then - exe_shares fl else exe_shares fl))
     = Inr (lp, tp)"
    using stock_basis_total by blast
  then show ?thesis
    using assms r
    by (auto simp: stock_fill_def Let_def update_conv' cell_Some
        split: sum.splits split del: if_split)
qed

lemma option_fill_bal:
  assumes "option_fill yespos av smb doe strk (trades, lv) fl = Inr (trades', lv')"
  shows "\<exists>r r'. map_of trades smb = Some r \<and> map_of trades' smb = Some r' \<and>
           position_bal r' = position_bal r"
proof -
  obtain r where r: "map_of trades smb = Some r"
    using assms by (cases "map_of trades smb") (auto simp: option_fill_def)
  obtain a otp where "option_action yespos smb fl = (a, otp)"
    by (cases "option_action yespos smb fl") auto
  then show ?thesis
    using assms r
    by (auto simp: option_fill_def Let_def update_conv'
        split: sum.splits split del: if_split)
qed

lemma bag_fill_bal:
  assumes "bag_fill yespos av qsym (bv, trades, lv) fl = Inr (bv', trades', lv')"
  shows "b_position_bal bv' = b_position_bal bv + leg_value fl"
    and "is_leg fl \<Longrightarrow> \<exists>r'. map_of trades' (leg_key qsym (b_action bv) fl) = Some r' \<and>
           position_bal r' = Some (Fl (b_position_bal bv'))"
proof -
  show "b_position_bal bv' = b_position_bal bv + leg_value fl"
    using assms
    by (cases "f_contract fl")
       (auto simp: bag_fill_def bag_stock_fill_def bag_option_fill_def leg_value_def Let_def
        split: sum.splits option.splits prod.splits split del: if_split)
  show "\<exists>r'. map_of trades' (leg_key qsym (b_action bv) fl) = Some r' \<and>
           position_bal r' = Some (Fl (b_position_bal bv'))" if "is_leg fl"
    using assms that
    by (cases "f_contract fl")
       (auto simp: bag_fill_def bag_stock_fill_def bag_option_fill_def leg_key_def is_leg_def
          Let_def update_conv'
        split: sum.splits option.splits prod.splits split del: if_split)
qed

text \<open>
  The claim C4 as stated fails in the trade loop: a stock order for X filled as 100 shares
  at 50 and then 100 shares at 51 leaves the position balance 10200, which is 200 times
  51; the dollar values of the two fills sum to 10100.
\<close>

theorem position_bal_counterexample:
  "process_trades [] 1000
     [\<lparr> t_contract = Stock ''X'',
        fills = [mk_fill (Stock ''X'') ''BOT'' 100 50 1 0 ''10:00'',
                 mk_fill (Stock ''X'') ''BOT'' 100 51 1 0 ''10:01''] \<rparr>]
     = Inr ([(''X'',
        \<lparr>date = Some ''2023-07-21'', time = Some ''10:01'',
           action = Some ''BOT'', ticker = Some ''X'', price = Some (Fl 51),
           trade_price = Some (Fl 51), leg_price = Some (Fl 51),
           strike = None, DOE = None, option_price = None,
           option_trade_price = None, Commission = Some (Fl 2),
           Option_size = None, Underlying_size = Some (Fl 200),
           position_bal = Some (Fl 10200), acct_bal = Some (Fl 1000),
           PL_underlying = Some (Fl 0), PL_underlying_leg = Some (Fl 0),
           PL_option = None, delta = None, Commision = None\<rparr>)],
      \<lparr>l_action = Some ''BOT'', l_trade_price = Some (Fl 51),
         l_leg_price = Some (Fl 51), l_option_trade_price = None\<rparr>) \<and>
   (100 * 50 + 100 * 51 :: real) = 10100 \<and> Fl 10200 \<noteq> Fl 10100"
  by (simp add: trade_defs scenario_defs)

text \<open>
  C4, amended. In the portfolio loop the position balance of a symbol's row starts at 0
  and every stock or option position of the symbol adds its market value: after any
  sequence of positions that the loop gets through, the balance is the sum of the market
  values of the positions posted to the row so far. The trade loop keeps no such sum. A
  fill of a stock order sets the balance to the row's accumulated underlying size times
  the price of that fill; a fill of an option order leaves the balance as it was; a leg
  of a Bag adds its dollar value to the running total of that Bag order and sets the
  balance of the row it posts to to this total, whatever the row held.
\<close>

theorem position_bal_by_pass:
  "(annotate trades_df yespos av gd lv0 (stub_positions ld lt [] pos) port = Inr s \<and>
      k \<in> symbol ` set pos \<longrightarrow>
      (\<exists>r. map_of (positions s) k = Some r \<and>
         position_bal r = Some (Fl (sum_list (map marketValue (filter (posts_to k) port)))))) \<and>
   (stock_fill yespos_s av_s smb_s (trades_s, lv_s) fl_s = Inr (trades_s', lv_s') \<longrightarrow>
      (\<exists>r'. map_of trades_s' smb_s = Some r' \<and>
         position_bal r' = Some (fmul (cell (Underlying_size r')) (Fl (exe_price fl_s))))) \<and>
   (option_fill yespos_o av_o smb_o doe strk (trades_o, lv_o) fl_o = Inr (trades_o', lv_o') \<longrightarrow>
      (\<exists>r r'. map_of trades_o smb_o = Some r \<and> map_of trades_o' smb_o = Some r' \<and>
         position_bal r' = position_bal r)) \<and>
   (bag_fill yespos_b av_b qsym (bv, trades_b, lv_b) fl_b = Inr (bv', trades_b', lv_b') \<longrightarrow>
      b_position_bal bv' = b_position_bal bv + leg_value fl_b \<and>
      (is_leg fl_b \<longrightarrow>
         (\<exists>r'. map_of trades_b' (leg_key qsym (b_action bv) fl_b) = Some r' \<and>
            position_bal r' = Some (Fl (b_position_bal bv')))))"
proof (intro conjI impI)
  assume a: "annotate trades_df yespos av gd lv0 (stub_positions ld lt [] pos) port = Inr s \<and>
      k \<in> symbol ` set pos"
  let ?init = "\<lparr> first = True, prevticker = ''not a real ticker'', rollover_flag = False,
         sell_CC_flag = False, close_CC_flag = False, vars = lv0,
         positions = stub_positions ld lt [] pos \<rparr>"
  from a have run: "foldE (annotate_item trades_df yespos av gd) ?init port = Inr s"
    by (simp add: annotate_def)
  from a have pk: "map_of (positions ?init) k = Some (stub_row ld lt k)"
    by (simp add: stub_positions_lookup)
  have b0: "position_bal (stub_row ld lt k) = Some (Fl 0)"
    by (simp add: stub_row_def)
  from foldE_annotate_bal [OF run pk b0]
  show "\<exists>r. map_of (positions s) k = Some r \<and>
         position_bal r = Some (Fl (sum_list (map marketValue (filter (posts_to k) port))))"
    by simp
next
  assume "stock_fill yespos_s av_s smb_s (trades_s, lv_s) fl_s = Inr (trades_s', lv_s')"
  then show "\<exists>r'. map_of trades_s' smb_s = Some r' \<and>
         position_bal r' = Some (fmul (cell (Underlying_size r')) (Fl (exe_price fl_s)))"
    by (rule stock_fill_bal)
next
  assume "option_fill yespos_o av_o smb_o doe strk (trades_o, lv_o) fl_o = Inr (trades_o', lv_o')"
  then show "\<exists>r r'. map_of trades_o smb_o = Some r \<and> map_of trades_o' smb_o = Some r' \<and>
         position_bal r' = position_bal r"
    by (rule option_fill_bal)
next
  assume "bag_fill yespos_b av_b qsym (bv, trades_b, lv_b) fl_b = Inr (bv', trades_b', lv_b')"
  then show "b_position_bal bv' = b_position_bal bv + leg_value fl_b"
    by (rule bag_fill_bal(1))
next
  assume "bag_fill yespos_b av_b qsym (bv, trades_b, lv_b) fl_b = Inr (bv', trades_b', lv_b')"
    and "is_leg fl_b"
  then show "\<exists>r'. map_of trades_b' (leg_key qsym (b_action bv) fl_b) = Some r' \<and>
            position_bal r' = Some (Fl (b_position_bal bv'))"
    by (rule bag_fill_bal(2))
qed

theorem position_bal_by_pass_witness:
  "\<exists>s r. annotate [] [] 1000 (\<lambda>s d k. - 99) unbound
            (stub_positions ''2023-07-21'' ''15:30:00'' [] [Stock ''X'', optX])
            [stockpos ''X'' 100 50, optpos optX (- 1) 2] = Inr s \<and>
          map_of (positions s) ''X'' = Some r \<and> position_bal r = Some (Fl 4800)"
proof -
  have "\<exists>s. annotate [] [] 1000 (\<lambda>s d k. - 99) unbound
            (stub_positions ''2023-07-21'' ''15:30:00'' [] [Stock ''X'', optX])
            [stockpos ''X'' 100 50, optpos optX (- 1) 2] = Inr s"
    by (simp add: port_defs scenario_defs rows_of_def empty_row_def unbound_def Let_def)
  then obtain s where run: "annotate [] [] 1000 (\<lambda>s d k. - 99) unbound
            (stub_positions ''2023-07-21'' ''15:30:00'' [] [Stock ''X'', optX])
            [stockpos ''X'' 100 50, optpos optX (- 1) 2] = Inr s"
    by blast
  have "\<exists>r. map_of (positions s) ''X'' = Some r \<and>
         position_bal r = Some (Fl (sum_list (map marketValue
           (filter (posts_to ''X'') [stockpos ''X'' 100 50, optpos optX (- 1) 2]))))"
    using run position_bal_by_pass [where trades_df = "[]" and yespos = "[]" and av = 1000
        and gd = "\<lambda>s d k. - 99" and ?lv0.0 = unbound and ld = "''2023-07-21''"
        and lt = "''15:30:00''" and pos = "[Stock ''X'', optX]"
        and port = "[stockpos ''X'' 100 50, optpos optX (- 1) 2]" and s = s and k = "''X''"]
    by (simp add: optX_def)
  then show ?thesis
    using run by (auto simp: posts_to_def scenario_defs)
qed

section \<open>Sums over the fills of one order\<close>

text \<open>
  C3. An order filled in two parts, with commissions 1.00 and 0.50 and realized P&L 10 and
  5. For a stock order the row ends with commission 1.50 and P&L 15: each fill is added
  to what the row held. For an option order the row ends with commission 1.50, but with
  P&L 5: line 230 stores the fill's own realized P&L and drops what the first fill posted.
\<close>

theorem option_fills_overwrite_pnl:
  "process_trades [] 1000
     [\<lparr> t_contract = Stock ''X'',
        fills = [mk_fill (Stock ''X'') ''SLD'' 60 50 1 10 ''10:00'',
                 mk_fill (Stock ''X'') ''SLD'' 40 50 0.5 5 ''10:01''] \<rparr>]
     = Inr ([(''X'',
        \<lparr>date = Some ''2023-07-21'', time = Some ''10:01'',
           action = Some ''SLD'', ticker = Some ''X'', price = Some (Fl 50),
           trade_price = Some (Fl 50), leg_price = Some (Fl 50),
           strike = None, DOE = None, option_price = None,
           option_trade_price = None, Commission = Some (Fl (3 / 2)),
           Option_size = None, Underlying_size = Some (Fl (- 100)),
           position_bal = Some (Fl (- 5000)), acct_bal = Some (Fl 1000),
           PL_underlying = Some (Fl 15), PL_underlying_leg = Some (Fl 0),
           PL_option = None, delta = None, Commision = None\<rparr>)],
      \<lparr>l_action = Some ''SLD'', l_trade_price = Some (Fl 50),
         l_leg_price = Some (Fl 50), l_option_trade_price = None\<rparr>) \<and>
   process_trades [] 1000
     [\<lparr> t_contract = optX,
        fills = [mk_fill optX ''SLD'' 1 2 1 10 ''10:00'',
                 mk_fill optX ''SLD'' 1 2 0.5 5 ''10:01''] \<rparr>]
     = Inr ([(''X'',
        \<lparr>date = Some ''2023-07-21'', time = Some ''10:01'',
           action = Some ''SELL CC'', ticker = Some ''X'', price = None,
           trade_price = None, leg_price = None, strike = Some (Fl 55),
           DOE = Some (Date 2023 8 18), option_price = Some (Fl 2),
           option_trade_price = Some (Fl 2), Commission = Some (Fl (3 / 2)),
           Option_size = Some (Fl (- 1)), Underlying_size = None,
           position_bal = None, acct_bal = Some (Fl 1000),
           PL_underlying = None, PL_underlying_leg = None,
           PL_option = Some (Fl 5), delta = None, Commision = None\<rparr>)],
      \<lparr>l_action = Some ''SELL CC'', l_trade_price = None,
         l_leg_price = None, l_option_trade_price = Some (Fl 2)\<rparr>)"
  by (simp add: trade_defs scenario_defs)

section \<open>Where a recovery run reads the fills from\<close>

text \<open>
  C9. With both flags set the run is the normal run. A recovery run on 2023-07-21 does
  not read the file that a normal run of that day writes,
  \<^verbatim>\<open>./data/trades-2023-07-21.pkl\<close>: line 171 opens \<^verbatim>\<open>./data/trades-2023-07-20.pkl\<close>
  whatever the date. With today's file alone on disk the run stops with a missing file;
  with both files on disk it records the fills of 2023-07-20.
\<close>

theorem recover_reads_fixed_file:
  "recorder e True True = recorder e True False \<and>
   tradeslogfile ''2023-07-21'' = ''./data/trades-2023-07-21.pkl'' \<and>
   recorder ((day_env [] [] [] [])
       \<lparr> e_files := [tradeslogfile ''2023-07-21'' \<mapsto> [sell_cc_X]] \<rparr>) False True
     = Inl FileNotFoundError \<and>
   trades_df_of (recorder ((day_env [] [] [] [])
       \<lparr> e_files := [tradeslogfile ''2023-07-21'' \<mapsto> [sell_cc_X],
                      ''./data/trades-2023-07-20.pkl'' \<mapsto> [buy_Z]] \<rparr>) False True)
     = trades_df_of (recorder (day_env [] [buy_Z] [] []) True False)"
proof -
  have "recorder e True True = recorder e True False"
    by (simp add: recorder_def)
  moreover have "tradeslogfile ''2023-07-21'' = ''./data/trades-2023-07-21.pkl''"
    by (simp add: tradeslogfile_def)
  moreover have "recorder ((day_env [] [] [] [])
       \<lparr> e_files := [tradeslogfile ''2023-07-21'' \<mapsto> [sell_cc_X]] \<rparr>) False True
     = Inl FileNotFoundError"
    by (simp add: recorder_def read_trds_def tradeslogfile_def day_env_def)
  moreover have "trades_df_of (recorder ((day_env [] [] [] [])
       \<lparr> e_files := [tradeslogfile ''2023-07-21'' \<mapsto> [sell_cc_X],
                      ''./data/trades-2023-07-20.pkl'' \<mapsto> [buy_Z]] \<rparr>) False True)
     = trades_df_of (recorder (day_env [] [buy_Z] [] []) True False)"
    by (simp add: recorder_def read_trds_def tradeslogfile_def trade_defs port_defs
        scenario_defs)
  ultimately show ?thesis by simp
qed

section \<open>Basis variables of the portfolio loop\<close>

text \<open>
  C10. Three runs in which a row of the positions is built from a basis variable that the
  classification of its own ticker did not assign. Yesterday's ledger holds Y only; today
  a call on X was sold; the portfolio holds the stock and the call of X and the stock of Y.
  When X comes first, its classification (UNMATCHED SELL CC, lines 443 to 446) assigns no
  leg price and the stock row reads an unassigned variable. When Y comes first, the row
  of X gets the leg price 40 that was assigned for Y. In the third run X was sold short
  at 50 and Z bought at 7, with nothing in yesterday's ledger: the row of X gets the trade
  price and leg price 7 that the trade loop left from the fill of Z.
\<close>

theorem basis_unbound_or_left_over:
  "recorder (day_env [yes_Y] [sell_cc_X] [Stock ''Y'', Stock ''X'', optX]
      [stockpos ''X'' 100 50, optpos optX (- 1) 2, stockpos ''Y'' 100 41]) True False
     = Inl UnboundLocalError \<and>
   port_df_of (recorder (day_env [yes_Y] [sell_cc_X] [Stock ''Y'', Stock ''X'', optX]
      [stockpos ''Y'' 100 41, stockpos ''X'' 100 50, optpos optX (- 1) 2]) True False)
     = Inr (Some
      [\<lparr>date = Some ''2023-07-21'', time = Some ''15:30:00'',
         action = Some ''OBSERVE'', ticker = Some ''Y'',
         price = Some (Fl 41), trade_price = Some (Fl 40),
         leg_price = Some (Fl 40), strike = None, DOE = None,
         option_price = None, option_trade_price = None, Commission = None,
         Option_size = None, Underlying_size = Some (Fl 100),
         position_bal = Some (Fl 4100), acct_bal = Some (Fl 1000),
         PL_underlying = Some (Fl 0), PL_underlying_leg = Some (Fl 100),
         PL_option = None, delta = None, Commision = None\<rparr>,
       \<lparr>date = Some ''2023-07-21'', time = Some ''15:30:00'',
         action = Some ''UNMATCHED SELL CC'', ticker = Some ''X'',
         price = Some (Fl 50), trade_price = Some (Fl 0),
         leg_price = Some (Fl 40), strike = Some (Fl 55),
         DOE = Some (Date 2023 8 18), option_price = Some (Fl 2),
         option_trade_price = Some (Fl 2), Commission = None,
         Option_size = Some (Fl (- 1)), Underlying_size = Some (Fl 100),
         position_bal = Some (Fl 4800), acct_bal = Some (Fl 1000),
         PL_underlying = Some (Fl 0), PL_underlying_leg = Some (Fl 1000),
         PL_option = Some (Fl 0), delta = Some (Fl (- 99)),
         Commision = None\<rparr>]) \<and>
   port_df_of (recorder (day_env [] [short_X, buy_Z] [Stock ''X'', Stock ''Z'']
      [stockpos ''X'' (- 100) 50, stockpos ''Z'' 10 7]) True False)
     = Inr (Some
      [\<lparr>date = Some ''2023-07-21'', time = Some ''15:30:00'',
         action = Some ''OBSERVE'', ticker = Some ''X'',
         price = Some (Fl 50), trade_price = Some (Fl 7),
         leg_price = Some (Fl 7), strike = None, DOE = None,
         option_price = None, option_trade_price = None, Commission = None,
         Option_size = None, Underlying_size = Some (Fl (- 100)),
         position_bal = Some (Fl (- 5000)), acct_bal = Some (Fl 1000),
         PL_underlying = Some (Fl 0),
         PL_underlying_leg = Some (Fl (- 4300)), PL_option = None,
         delta = None, Commision = None\<rparr>,
       \<lparr>date = Some ''2023-07-21'', time = Some ''15:30:00'',
         action = Some ''OBSERVE'', ticker = Some ''Z'',
         price = Some (Fl 7), trade_price = Some (Fl 7),
         leg_price = Some (Fl 7), strike = None, DOE = None,
         option_price = None, option_trade_price = None, Commission = None,
         Option_size = None, Underlying_size = Some (Fl 10),
         position_bal = Some (Fl 70), acct_bal = Some (Fl 1000),
         PL_underlying = Some (Fl 0), PL_underlying_leg = Some (Fl 0),
         PL_option = None, delta = None, Commision = None\<rparr>])"
  by (simp add: recorder_def read_trds_def trade_defs port_defs scenario_defs)

end
